theory Spec2Isabelle
  imports Complex_Main
begin

section \<open>Position sizing and portfolio state (agents/hedge\_fund.py)\<close>

text \<open>
  Python floats are modelled as reals: rounding is not modelled, every comparison and
  every arithmetic step is the exact one.  (The one function whose result is decided by
  infinities and NaN, \<^verbatim>\<open>calculate_rsi\<close>, has a float type of its own further
  down.)  The portfolio dictionary
  \<^verbatim>\<open>{'cash', 'positions', 'total_value'}\<close> is a record; \<^verbatim>\<open>positions\<close> is an
  association list in insertion order, as a Python dict iterates.
\<close>

record portfolio =
  cash :: real
  positions :: "(string \<times> real) list"
  total_value :: real

text \<open>\<^verbatim>\<open>d.get(k, default)\<close> on a dictionary of floats.\<close>

definition get_or :: "(string \<rightharpoonup> real) \<Rightarrow> string \<Rightarrow> real \<Rightarrow> real" where
  "get_or d k dflt = (case d k of None \<Rightarrow> dflt | Some v \<Rightarrow> v)"

text \<open>
  \<^verbatim>\<open>HedgeFundAgent.calculate_trade_size(token, confidence, market_data)\<close>, lines 158-181;
  \<^verbatim>\<open>self.portfolio\<close> is the first argument.
\<close>

definition calculate_trade_size ::
  "portfolio \<Rightarrow> string \<Rightarrow> real \<Rightarrow> (string \<rightharpoonup> real) \<Rightarrow> real" where
  "calculate_trade_size p token confidence market_data =
     (let max_position = total_value p * 0.2;
          position_size = max_position * confidence;
          liquidity = get_or market_data ''liquidity'' 0;
          position_size = (if liquidity > 0 then min position_size (liquidity * 0.1)
                           else position_size);
          position_size = (if position_size > cash p then cash p else position_size)
      in position_size)"

text \<open>
  A trade as \<^verbatim>\<open>update_portfolio\<close> reads it: the keys \<^verbatim>\<open>'token'\<close>, \<^verbatim>\<open>'action'\<close> and
  \<^verbatim>\<open>'amount'\<close> of the trade dictionary.
\<close>

record trade =
  trade_token :: string
  trade_action :: string
  trade_amount :: real

datatype py_error = TypeError | ValueError | AttributeError | IndexError | KeyError

text \<open>
  What \<^verbatim>\<open>float(...)\<close> can be handed in \<^verbatim>\<open>calculate_total_value\<close>: a number, or the
  coroutine object that calling an \<^verbatim>\<open>async def\<close> without \<^verbatim>\<open>await\<close> returns.  The
  coroutine carries the value its body would produce if it were awaited.
\<close>

datatype py_object = PyFloat real | PyCoroutine real

fun py_float :: "py_object \<Rightarrow> py_error + real" where
  "py_float (PyFloat r) = Inr r"
| "py_float (PyCoroutine r) = Inl TypeError"

text \<open>
  \<^verbatim>\<open>async def get_current_price(token)\<close>, lines 244-251.  The price source
  \<^verbatim>\<open>self.jupiter.get_price\<close> is a parameter: \<open>None\<close> when it raises or returns
  \<^verbatim>\<open>None\<close>.  The body maps a falsy price and a failure to 0.0; the call itself returns
  the coroutine.
\<close>

definition get_current_price :: "(string \<Rightarrow> real option) \<Rightarrow> string \<Rightarrow> py_object" where
  "get_current_price jupiter_get_price token =
     PyCoroutine (case jupiter_get_price token of
                    None \<Rightarrow> 0
                  | Some price \<Rightarrow> (if price \<noteq> 0 then price else 0))"

text \<open>
  \<^verbatim>\<open>calculate_total_value\<close>, lines 230-242: the loop over \<^verbatim>\<open>positions.items()\<close>, one
  \<^verbatim>\<open>try\<close> per token; a failed \<^verbatim>\<open>float(...)\<close> is logged and the token adds nothing.
\<close>

fun total_loop :: "(string \<Rightarrow> real option) \<Rightarrow> (string \<times> real) list \<Rightarrow> real \<Rightarrow> real" where
  "total_loop jp [] tot = tot"
| "total_loop jp ((token, amount) # rest) tot =
     (case py_float (get_current_price jp token) of
        Inr price \<Rightarrow> total_loop jp rest (tot + amount * price)
      | Inl e \<Rightarrow> total_loop jp rest tot)"

definition calculate_total_value :: "(string \<Rightarrow> real option) \<Rightarrow> portfolio \<Rightarrow> portfolio" where
  "calculate_total_value jp p = p\<lparr>total_value := total_loop jp (positions p) (cash p)\<rparr>"

text \<open>\<^verbatim>\<open>d.get(k, default)\<close> and \<^verbatim>\<open>d[k] = v\<close> on an insertion-ordered dictionary.\<close>

fun dict_get :: "('k \<times> 'v) list \<Rightarrow> 'k \<Rightarrow> 'v \<Rightarrow> 'v" where
  "dict_get [] k dflt = dflt"
| "dict_get ((k', v) # d) k dflt = (if k' = k then v else dict_get d k dflt)"

fun dict_set :: "('k \<times> 'v) list \<Rightarrow> 'k \<Rightarrow> 'v \<Rightarrow> ('k \<times> 'v) list" where
  "dict_set [] k v = [(k, v)]"
| "dict_set ((k', v') # d) k v = (if k' = k then (k, v) # d else (k', v') # dict_set d k v)"

text \<open>
  \<^verbatim>\<open>update_portfolio(trade, result)\<close>, lines 212-228; \<^verbatim>\<open>executed_price\<close> is
  \<^verbatim>\<open>float(result['executed_price'])\<close>.  Every action other than \<^verbatim>\<open>'buy'\<close> takes the
  \<^verbatim>\<open>else\<close> branch.
\<close>

definition update_portfolio ::
  "(string \<Rightarrow> real option) \<Rightarrow> portfolio \<Rightarrow> trade \<Rightarrow> real \<Rightarrow> portfolio" where
  "update_portfolio jp p t executed_price =
     (let token = trade_token t;
          amount = trade_amount t;
          price = executed_price;
          p' = (if trade_action t = ''buy''
                then p\<lparr>cash := cash p - amount * price,
                       positions := dict_set (positions p) token
                                      (dict_get (positions p) token 0 + amount)\<rparr>
                else p\<lparr>cash := cash p + amount * price,
                       positions := dict_set (positions p) token
                                      (dict_get (positions p) token 0 - amount)\<rparr>)
      in calculate_total_value jp p')"

section \<open>Memory store (cognition/memory.py)\<close>

subsection \<open>Values and dictionaries\<close>

text \<open>
  The values an entry's \<^verbatim>\<open>data\<close> dictionary holds: numbers (\<^verbatim>\<open>int\<close> and \<^verbatim>\<open>float\<close>, both
  as reals) and strings.  Lists of numbers are the accumulators that
  \<^verbatim>\<open>_merge_memory_data\<close> keeps in its \<^verbatim>\<open>merged\<close> dictionary.  A dictionary is an
  association list in insertion order with distinct keys.
\<close>

datatype py_value = Num real | Str string | NumList "real list"

type_synonym py_dict = "(string \<times> py_value) list"

text \<open>
  Two builtins do work that depends on the text of a string: \<^verbatim>\<open>float(s)\<close> parses it
  (\<open>None\<close> stands for \<^verbatim>\<open>ValueError\<close>) and an f-string renders a value that is not
  a string.  Both are parameters of the model.
\<close>

record py_builtins =
  float_of_str :: "string \<Rightarrow> real option"
  str_of :: "py_value \<Rightarrow> string"

fun py_float_value :: "py_builtins \<Rightarrow> py_value \<Rightarrow> py_error + real" where
  "py_float_value py (Num r) = Inr r"
| "py_float_value py (Str s) =
     (case float_of_str py s of None \<Rightarrow> Inl ValueError | Some r \<Rightarrow> Inr r)"
| "py_float_value py (NumList xs) = Inl TypeError"

fun py_str :: "py_builtins \<Rightarrow> py_value \<Rightarrow> string" where
  "py_str py (Str s) = s"
| "py_str py v = str_of py v"

text \<open>\<^verbatim>\<open>k in d\<close> on a dictionary.\<close>

definition has_key :: "('k \<times> 'v) list \<Rightarrow> 'k \<Rightarrow> bool" where
  "has_key d k = (k \<in> set (map fst d))"

subsection \<open>Importance\<close>

text \<open>
  \<^verbatim>\<open>_calculate_importance(entry_type, data)\<close>, lines 114-133.  A \<^verbatim>\<open>float(...)\<close> that
  raises ends the call with the exception.  Python's \<^verbatim>\<open>min(a, b)\<close> is \<open>min a b\<close> on
  reals.
\<close>

definition calculate_importance :: "py_builtins \<Rightarrow> string \<Rightarrow> py_dict \<Rightarrow> py_error + real" where
  "calculate_importance py entry_type data =
     (let importance = 0.5 in
      if entry_type = ''trade'' then
        (case py_float_value py (dict_get data ''size'' (Num 0)) of
           Inl e \<Rightarrow> Inl e
         | Inr size_value \<Rightarrow>
            (let trade_size = \<bar>size_value\<bar> in
             case py_float_value py (dict_get data ''profit'' (Num 0)) of
               Inl e \<Rightarrow> Inl e
             | Inr profit \<Rightarrow>
                (let importance = importance + min 0.3 (trade_size / 10000);
                     importance = importance + min 0.2 (\<bar>profit\<bar> / 1000)
                 in Inr (min 1.0 importance))))
      else if entry_type = ''error'' then
        (let importance = importance + 0.3 in Inr (min 1.0 importance))
      else if entry_type = ''analysis'' then
        (case py_float_value py (dict_get data ''confidence'' (Num 0)) of
           Inl e \<Rightarrow> Inl e
         | Inr confidence \<Rightarrow>
            (case py_float_value py (dict_get data ''risk_score'' (Num 0)) of
               Inl e \<Rightarrow> Inl e
             | Inr risk_score \<Rightarrow>
                (let importance = importance + 0.2 * confidence;
                     importance = importance + 0.2 * risk_score
                 in Inr (min 1.0 importance))))
      else Inr (min 1.0 importance))"

subsection \<open>Entries, metrics and the store\<close>

text \<open>
  \<^verbatim>\<open>MemoryEntry\<close>, lines 9-16.  The timestamp is the text of
  \<^verbatim>\<open>datetime.now().isoformat()\<close>; the clock is read by the caller and handed in.
\<close>

record memory_entry =
  timestamp :: string
  type :: string
  data :: py_dict
  importance :: real
  metadata :: "py_dict option"

text \<open>
  \<^verbatim>\<open>self.metrics\<close>, lines 36-41.  \<^verbatim>\<open>total_trades\<close> starts at 0 and is only ever
  incremented, so it is a natural number.
\<close>

record metrics =
  trades :: "py_dict list"
  win_rate :: real
  avg_profit :: real
  total_trades :: nat

text \<open>
  \<^verbatim>\<open>MemorySystem\<close>: the three constructor arguments and the state.  \<^verbatim>\<open>max_size\<close> is
  the \<^verbatim>\<open>maxlen\<close> of a deque, which Python requires to be non-negative.
\<close>

record memory_system =
  max_size :: nat
  importance_threshold :: real
  consolidation_interval :: int
  short_term :: "memory_entry list"
  long_term :: "memory_entry list"
  metrics :: metrics

text \<open>\<^verbatim>\<open>MemorySystem.__init__\<close>, lines 21-41; the defaults are 1000, 0.5 and 100.\<close>

definition init :: "nat \<Rightarrow> real \<Rightarrow> int \<Rightarrow> memory_system" where
  "init max_size_arg importance_threshold_arg consolidation_interval_arg =
     \<lparr>max_size = max_size_arg,
      importance_threshold = importance_threshold_arg,
      consolidation_interval = consolidation_interval_arg,
      short_term = [],
      long_term = [],
      metrics = \<lparr>trades = [], win_rate = 0.0, avg_profit = 0.0, total_trades = 0\<rparr>\<rparr>"

definition default_init :: memory_system where
  "default_init = init 1000 0.5 100"

text \<open>
  \<^verbatim>\<open>collections.deque(maxlen=n)\<close>: \<^verbatim>\<open>append\<close> adds on the right and, when the deque is
  then longer than \<open>n\<close>, removes one element on the left; \<^verbatim>\<open>extend\<close> appends the
  elements one by one.
\<close>

definition deque_append :: "nat \<Rightarrow> 'a list \<Rightarrow> 'a \<Rightarrow> 'a list" where
  "deque_append maxlen xs x = (let ys = xs @ [x] in if length ys > maxlen then tl ys else ys)"

definition deque_extend :: "nat \<Rightarrow> 'a list \<Rightarrow> 'a list \<Rightarrow> 'a list" where
  "deque_extend maxlen xs ys = foldl (deque_append maxlen) xs ys"

text \<open>The \<^verbatim>\<open>maxlen\<close> of \<^verbatim>\<open>short_term\<close>, line 32.\<close>

definition short_capacity :: nat where
  "short_capacity = 100"

subsection \<open>Metrics\<close>

text \<open>The list comprehension of line 233: the first \<^verbatim>\<open>float(...)\<close> that raises ends it.\<close>

fun profits_of :: "py_builtins \<Rightarrow> py_dict list \<Rightarrow> py_error + real list" where
  "profits_of py [] = Inr []"
| "profits_of py (t # ts) =
     (case py_float_value py (dict_get t ''profit'' (Num 0)) of
        Inl e \<Rightarrow> Inl e
      | Inr p \<Rightarrow> (case profits_of py ts of Inl e \<Rightarrow> Inl e | Inr ps \<Rightarrow> Inr (p # ps)))"

text \<open>
  \<^verbatim>\<open>_update_metrics(trade_data)\<close>, lines 213-234.  The result is the metrics as they
  stand when the call ends, and the exception if it ended by one: the count and the
  trade list are updated before the first \<^verbatim>\<open>float(...)\<close>, the win rate before the
  second.
\<close>

definition update_metrics :: "py_builtins \<Rightarrow> metrics \<Rightarrow> py_dict \<Rightarrow> metrics \<times> py_error option" where
  "update_metrics py m trade_data =
     (let m1 = m\<lparr>total_trades := total_trades m + 1\<rparr>;
          m2 = m1\<lparr>trades := trades m1 @ [trade_data]\<rparr>;
          after_win_rate =
            (if has_key trade_data ''profit'' then
               (case py_float_value py (dict_get trade_data ''profit'' (Num 0)) of
                  Inl e \<Rightarrow> Inl e
                | Inr profit \<Rightarrow>
                    (if profit > 0 then
                       Inr (m2\<lparr>win_rate :=
                              (win_rate m2 * (real (total_trades m2) - 1) + 1)
                                / real (total_trades m2)\<rparr>)
                     else
                       Inr (m2\<lparr>win_rate :=
                              win_rate m2 * (real (total_trades m2) - 1)
                                / real (total_trades m2)\<rparr>)))
             else Inr m2)
      in case after_win_rate of
           Inl e \<Rightarrow> (m2, Some e)
         | Inr m3 \<Rightarrow>
            (case profits_of py (trades m3) of
               Inl e \<Rightarrow> (m3, Some e)
             | Inr profits \<Rightarrow>
                (m3\<lparr>avg_profit := (if profits \<noteq> [] then sum_list profits / real (length profits)
                                    else 0)\<rparr>,
                 None)))"

subsection \<open>Consolidation\<close>

text \<open>The grouping key of line 169, \<^verbatim>\<open>f"{memory.type}_{memory.data.get('token', '')}"\<close>.\<close>

definition group_key :: "py_builtins \<Rightarrow> memory_entry \<Rightarrow> string" where
  "group_key py memory = type memory @ ''_'' @ py_str py (dict_get (data memory) ''token'' (Str ''''))"

text \<open>The first loop of \<^verbatim>\<open>_consolidate_memories\<close>, lines 168-172.\<close>

fun group_loop ::
  "py_builtins \<Rightarrow> memory_entry list \<Rightarrow> (string \<times> memory_entry list) list
     \<Rightarrow> (string \<times> memory_entry list) list" where
  "group_loop py [] groups = groups"
| "group_loop py (memory # rest) groups =
     (let key = group_key py memory;
          groups = (if \<not> has_key groups key then dict_set groups key [] else groups);
          groups = dict_set groups key (dict_get groups key [] @ [memory])
      in group_loop py rest groups)"

text \<open>
  \<^verbatim>\<open>_merge_memory_data(memories)\<close>, lines 194-211.  The inner loop over the items of
  one entry: \<^verbatim>\<open>merged[key].append(value)\<close> raises \<^verbatim>\<open>AttributeError\<close> when an earlier
  entry left a string or a number under the key.
\<close>

fun merge_items :: "py_dict \<Rightarrow> py_dict \<Rightarrow> py_error + py_dict" where
  "merge_items [] merged = Inr merged"
| "merge_items ((key, v) # items) merged =
     (let merged = (if \<not> has_key merged key then dict_set merged key (NumList []) else merged)
      in case v of
           Num r \<Rightarrow>
             (case dict_get merged key (NumList []) of
                NumList xs \<Rightarrow> merge_items items (dict_set merged key (NumList (xs @ [r])))
              | _ \<Rightarrow> Inl AttributeError)
         | _ \<Rightarrow> merge_items items (dict_set merged key v))"

fun merge_loop :: "memory_entry list \<Rightarrow> py_dict \<Rightarrow> py_error + py_dict" where
  "merge_loop [] merged = Inr merged"
| "merge_loop (memory # memories) merged =
     (case merge_items (data memory) merged of
        Inl e \<Rightarrow> Inl e
      | Inr merged' \<Rightarrow> merge_loop memories merged')"

text \<open>The second loop, lines 207-209: a non-empty list of numbers becomes its mean.\<close>

fun average_lists :: "py_dict \<Rightarrow> py_dict" where
  "average_lists [] = []"
| "average_lists ((key, NumList (x # xs)) # merged) =
     (key, Num (sum_list (x # xs) / real (length (x # xs)))) # average_lists merged"
| "average_lists ((key, v) # merged) = (key, v) # average_lists merged"

definition merge_memory_data :: "memory_entry list \<Rightarrow> py_error + py_dict" where
  "merge_memory_data memories =
     (case merge_loop memories [] of
        Inl e \<Rightarrow> Inl e
      | Inr merged \<Rightarrow> Inr (average_lists merged))"

text \<open>\<^verbatim>\<open>max(m.importance for m in group)\<close> on a non-empty group.\<close>

definition max_importance :: "memory_entry list \<Rightarrow> real" where
  "max_importance grp = foldl max (importance (hd grp)) (map importance (tl grp))"

text \<open>
  The second loop of \<^verbatim>\<open>_consolidate_memories\<close>, lines 175-185, over
  \<^verbatim>\<open>groups.values()\<close>: only a group of more than one entry adds to \<^verbatim>\<open>consolidated\<close>.
  The new entry has no metadata.  The code reads the clock anew for every merged entry
  (line 181); here all merged entries of one consolidation carry the one reading
  \<open>now\<close>, and no result below depends on the timestamps of merged entries being equal.
\<close>

fun consolidate_loop ::
  "string \<Rightarrow> memory_entry list list \<Rightarrow> memory_entry list \<Rightarrow> py_error + memory_entry list" where
  "consolidate_loop now [] consolidated = Inr consolidated"
| "consolidate_loop now (grp # groups) consolidated =
     (if length grp > 1 then
        (case merge_memory_data grp of
           Inl e \<Rightarrow> Inl e
         | Inr consolidated_data \<Rightarrow>
             consolidate_loop now groups
               (consolidated @
                  [\<lparr>timestamp = now, type = type (hd grp), data = consolidated_data,
                    importance = max_importance grp, metadata = None\<rparr>]))
      else consolidate_loop now groups consolidated)"

text \<open>
  \<^verbatim>\<open>_consolidate_memories\<close>, lines 161-192.  The buffer is cleared and refilled only
  after both loops; an exception before that is logged and leaves the store as it was.
\<close>

definition consolidate_memories :: "py_builtins \<Rightarrow> string \<Rightarrow> memory_system \<Rightarrow> memory_system" where
  "consolidate_memories py now ms =
     (case consolidate_loop now (map snd (group_loop py (short_term ms) [])) [] of
        Inl e \<Rightarrow> ms
      | Inr consolidated \<Rightarrow> ms\<lparr>short_term := deque_extend short_capacity [] consolidated\<rparr>)"

subsection \<open>Adding an entry\<close>

text \<open>
  \<^verbatim>\<open>add(entry_type, data, metadata)\<close>, lines 43-71; \<open>now\<close> is the clock reading, which
  is also handed to the consolidation the call may trigger (the code reads the clock
  again there).  An
  exception from \<^verbatim>\<open>_calculate_importance\<close> leaves the store unchanged; one from
  \<^verbatim>\<open>_update_metrics\<close> comes after the two appends and skips the consolidation.
\<close>

definition add ::
  "py_builtins \<Rightarrow> string \<Rightarrow> memory_system \<Rightarrow> string \<Rightarrow> py_dict \<Rightarrow> py_dict option \<Rightarrow> memory_system" where
  "add py now ms entry_type entry_data entry_metadata =
     (case calculate_importance py entry_type entry_data of
        Inl e \<Rightarrow> ms
      | Inr imp \<Rightarrow>
         (let entry = \<lparr>timestamp = now, type = entry_type, data = entry_data,
                       importance = imp, metadata = entry_metadata\<rparr>;
              ms1 = ms\<lparr>short_term := deque_append short_capacity (short_term ms) entry\<rparr>;
              ms2 = (if imp \<ge> importance_threshold ms1
                     then ms1\<lparr>long_term := deque_append (max_size ms1) (long_term ms1) entry\<rparr>
                     else ms1);
              (ms3, raised) =
                 (if entry_type = ''trade''
                  then (case update_metrics py (metrics ms2) entry_data of
                          (m, r) \<Rightarrow> (ms2\<lparr>metrics := m\<rparr>, r))
                  else (ms2, None))
          in case raised of
               Some e \<Rightarrow> ms3
             | None \<Rightarrow>
                (if int (length (short_term ms3)) \<ge> consolidation_interval ms3
                 then consolidate_memories py now ms3
                 else ms3)))"

text \<open>A call of \<^verbatim>\<open>add\<close> with its clock reading, and a sequence of calls.\<close>

record add_call =
  call_now :: string
  call_type :: string
  call_data :: py_dict
  call_metadata :: "py_dict option"

definition add_call :: "py_builtins \<Rightarrow> memory_system \<Rightarrow> add_call \<Rightarrow> memory_system" where
  "add_call py ms c = add py (call_now c) ms (call_type c) (call_data c) (call_metadata c)"

definition add_all :: "py_builtins \<Rightarrow> memory_system \<Rightarrow> add_call list \<Rightarrow> memory_system" where
  "add_all py ms cs = foldl (add_call py) ms cs"

subsection \<open>Inputs of the examples\<close>

text \<open>
  A concrete pair of builtins for evaluating examples: no string parses as a number and
  every value that is not a string renders as \<^verbatim>\<open>?\<close>.  The examples below hold numbers
  where \<^verbatim>\<open>float(...)\<close> is applied and strings where a token is read, so neither
  choice is ever consulted.
\<close>

definition plain_builtins :: py_builtins where
  "plain_builtins = \<lparr>float_of_str = (\<lambda>s. None), str_of = (\<lambda>v. ''?'')\<rparr>"

text \<open>
  A store with the importance threshold raised to 0.9 and the other two arguments at
  their defaults, and an analysis with a confidence of 0.5: its importance is
  0.5 + 0.1 = 0.6, below that threshold.  The call that adds it at clock reading
  \<^verbatim>\<open>t\<close>, and the entry the call creates.
\<close>

definition strict_init :: memory_system where
  "strict_init = init 1000 0.9 100"

definition low_call :: add_call where
  "low_call = \<lparr>call_now = ''t'', call_type = ''analysis'',
               call_data = [(''confidence'', Num 0.5)], call_metadata = None\<rparr>"

definition low_entry :: memory_entry where
  "low_entry = \<lparr>timestamp = ''t'', type = ''analysis'', data = [(''confidence'', Num 0.5)],
                importance = 0.6, metadata = None\<rparr>"

text \<open>
  Three entries for the consolidation example: two trades of the token SOL, which form
  one group, and an error about the token JUP, alone in its group.
\<close>

definition sol_trade_a :: memory_entry where
  "sol_trade_a = \<lparr>timestamp = ''t1'', type = ''trade'',
                  data = [(''token'', Str ''SOL''), (''size'', Num 100)],
                  importance = 0.51, metadata = None\<rparr>"

definition sol_trade_b :: memory_entry where
  "sol_trade_b = \<lparr>timestamp = ''t2'', type = ''trade'',
                  data = [(''token'', Str ''SOL''), (''size'', Num 300)],
                  importance = 0.53, metadata = None\<rparr>"

definition jup_error :: memory_entry where
  "jup_error = \<lparr>timestamp = ''t3'', type = ''error'', data = [(''token'', Str ''JUP'')],
                importance = 0.8, metadata = None\<rparr>"

section \<open>Signal engine (agents/market\_analyzer.py)\<close>

text \<open>
  The dictionary \<^verbatim>\<open>generate_trading_signals\<close> returns, one field per key.  The action
  is the string the code stores.
\<close>

record trading_signal =
  action :: string
  confidence :: real
  signal_strength :: real
  risk_score :: real
  liquidity_score :: real

text \<open>
  \<^verbatim>\<open>MarketAnalyzer.generate_trading_signals(technical, risk, liquidity)\<close>, lines
  134-188.  The three arguments are dictionaries of floats.  On floats nothing in the
  \<^verbatim>\<open>try\<close> block raises (the two divisions are by the constants 0.1 and 100000), so
  the \<^verbatim>\<open>except\<close> branch of lines 180-188 is never taken and the function is the
  straight-line code below.
\<close>

definition generate_trading_signals ::
  "(string \<rightharpoonup> real) \<Rightarrow> (string \<rightharpoonup> real) \<Rightarrow> (string \<rightharpoonup> real) \<Rightarrow> trading_signal" where
  "generate_trading_signals technical risk liquidity =
     (let signal_strength = 0;
          signal_strength =
            (if get_or technical ''rsi'' 50 < 30 then signal_strength + 0.4
             else if get_or technical ''rsi'' 50 > 70 then signal_strength - 0.4
             else signal_strength);
          signal_strength =
            (if get_or technical ''macd'' 0 > 0 then signal_strength + 0.2
             else signal_strength - 0.2);
          risk_score = 0.3 * (1 - min 1 (get_or risk ''value_at_risk'' 0 / 0.1));
          signal_strength = signal_strength + risk_score;
          liquidity_score = 0.3 * min 1 (get_or liquidity ''depth_2_percent'' 0 / 100000);
          signal_strength = signal_strength + liquidity_score;
          action = (if signal_strength > 0.3 then ''BUY''
                    else if signal_strength < - 0.3 then ''SELL''
                    else ''HOLD'')
      in \<lparr>action = action,
          confidence = \<bar>signal_strength\<bar>,
          signal_strength = signal_strength,
          risk_score = risk_score,
          liquidity_score = liquidity_score\<rparr>)"

section \<open>Relative strength index (agents/market\_analyzer.py)\<close>

text \<open>
  \<^verbatim>\<open>calculate_rsi\<close> is a chain of pandas operations on a \<^verbatim>\<open>Series\<close> of floats, and
  what it returns on short and on flat series is decided by the special values of
  floating-point arithmetic.  A float is therefore a real number, one of the two
  infinities, or NaN.  A price change beyond the range of a double overflows to an
  infinity.  Rounding inside that range is not modelled, the sums of the rolling means
  are exact and unbounded, and the sign of zero is not modelled: the only division by
  zero in the function is \<^verbatim>\<open>gain / loss\<close>, whose quotient is only used in
  \<^verbatim>\<open>100 - 100 / (1 + rs)\<close>, and that is 100 for either infinity.  The range property
  below is stated for prices on which the float sums are exact as well and nothing
  overflows.
\<close>

datatype fl = Fin real | PInf | NInf | NaN

fun fl_neg :: "fl \<Rightarrow> fl" where
  "fl_neg (Fin x) = Fin (- x)"
| "fl_neg PInf = NInf"
| "fl_neg NInf = PInf"
| "fl_neg NaN = NaN"

fun fl_add :: "fl \<Rightarrow> fl \<Rightarrow> fl" where
  "fl_add (Fin x) (Fin y) = Fin (x + y)"
| "fl_add NaN b = NaN"
| "fl_add a NaN = NaN"
| "fl_add PInf NInf = NaN"
| "fl_add NInf PInf = NaN"
| "fl_add PInf b = PInf"
| "fl_add NInf b = NInf"
| "fl_add a PInf = PInf"
| "fl_add a NInf = NInf"

definition fl_sub :: "fl \<Rightarrow> fl \<Rightarrow> fl" where
  "fl_sub a b = fl_add a (fl_neg b)"

text \<open>Division as numpy does it on arrays: a zero divisor gives an infinity or NaN.\<close>

fun fl_div :: "fl \<Rightarrow> fl \<Rightarrow> fl" where
  "fl_div (Fin x) (Fin y) =
     (if y \<noteq> 0 then Fin (x / y) else if x > 0 then PInf else if x < 0 then NInf else NaN)"
| "fl_div NaN b = NaN"
| "fl_div a NaN = NaN"
| "fl_div (Fin x) b = Fin 0"
| "fl_div PInf (Fin y) = (if y \<ge> 0 then PInf else NInf)"
| "fl_div NInf (Fin y) = (if y \<ge> 0 then NInf else PInf)"
| "fl_div a b = NaN"

text \<open>The comparisons \<^verbatim>\<open>x > 0\<close> and \<^verbatim>\<open>x < 0\<close>; both are false for NaN.\<close>

fun fl_pos :: "fl \<Rightarrow> bool" where
  "fl_pos (Fin x) = (x > 0)"
| "fl_pos PInf = True"
| "fl_pos a = False"

fun fl_negative :: "fl \<Rightarrow> bool" where
  "fl_negative (Fin x) = (x < 0)"
| "fl_negative NInf = True"
| "fl_negative a = False"

text \<open>
  The overflow threshold of a double: the largest finite double is
  \<open>2 ^ 1024 - 2 ^ 971\<close>, and a result of magnitude \<open>2 ^ 1024 - 2 ^ 970\<close> or more
  rounds to an infinity.
\<close>

definition float_overflow :: real where
  "float_overflow = 2 ^ 1024 - 2 ^ 970"

definition fl_of_real :: "real \<Rightarrow> fl" where
  "fl_of_real x =
     (if float_overflow \<le> x then PInf else if x \<le> - float_overflow then NInf else Fin x)"

text \<open>
  \<^verbatim>\<open>Series.diff()\<close> on a series of finite prices: the first element is NaN, every other
  one the difference to its predecessor, an infinity when the difference overflows.
\<close>

definition series_diff :: "real list \<Rightarrow> fl list" where
  "series_diff prices =
     (case prices of
        [] \<Rightarrow> []
      | p # ps \<Rightarrow> NaN # map (\<lambda>(a, b). fl_of_real (b - a)) (zip prices ps))"

text \<open>\<^verbatim>\<open>s.where(cond, other)\<close>: the element where the condition holds, \<^verbatim>\<open>other\<close> elsewhere.\<close>

definition series_where :: "fl list \<Rightarrow> (fl \<Rightarrow> bool) \<Rightarrow> fl \<Rightarrow> fl list" where
  "series_where s cond other = map (\<lambda>x. if cond x then x else other) s"

text \<open>
  \<^verbatim>\<open>s.rolling(window=period).mean()\<close>, with \<^verbatim>\<open>min_periods\<close> at its default, the window:
  the element at index \<open>i\<close> is the mean of the \<open>period\<close> elements that end at \<open>i\<close>, and
  NaN when there are fewer than \<open>period\<close> of them or one of them is not a number
  (pandas replaces the infinities of its input by NaN before it aggregates).
\<close>

fun fl_value :: "fl \<Rightarrow> real option" where
  "fl_value (Fin x) = Some x"
| "fl_value a = None"

definition window_mean :: "nat \<Rightarrow> fl list \<Rightarrow> fl" where
  "window_mean period w =
     (if period = 0 \<or> length w < period \<or> None \<in> set (map fl_value w) then NaN
      else Fin (sum_list (map (\<lambda>x. case fl_value x of Some v \<Rightarrow> v | None \<Rightarrow> 0) w)
                  / real period))"

definition rolling_mean :: "nat \<Rightarrow> fl list \<Rightarrow> fl list" where
  "rolling_mean period s =
     map (\<lambda>i. window_mean period (drop (Suc i - period) (take (Suc i) s))) [0..<length s]"

text \<open>\<^verbatim>\<open>s.iloc[-1]\<close> raises \<^verbatim>\<open>IndexError\<close> on an empty series.\<close>

definition iloc_last :: "fl list \<Rightarrow> py_error + fl" where
  "iloc_last s = (if s = [] then Inl IndexError else Inr (last s))"

text \<open>
  \<^verbatim>\<open>MarketAnalyzer.calculate_rsi(prices, period=14)\<close>, lines 191-202.  The only
  exception the \<^verbatim>\<open>try\<close> block can raise on a series of floats is the
  \<^verbatim>\<open>IndexError\<close> of \<^verbatim>\<open>iloc[-1]\<close>.
\<close>

definition calculate_rsi :: "real list \<Rightarrow> nat \<Rightarrow> fl" where
  "calculate_rsi prices period =
     (let delta = series_diff prices;
          gain = rolling_mean period (series_where delta fl_pos (Fin 0));
          loss = rolling_mean period (map fl_neg (series_where delta fl_negative (Fin 0)));
          rs = map (\<lambda>(g, l). fl_div g l) (zip gain loss);
          rsi = map (\<lambda>r. fl_sub (Fin 100) (fl_div (Fin 100) (fl_add (Fin 1) r))) rs
      in case iloc_last rsi of
           Inr v \<Rightarrow> v
         | Inl e \<Rightarrow> Fin 50.0)"

text \<open>
  The gains and the losses as real numbers, for stating results: the positive part and
  the negated negative part of each price change, with 0 in the first place.  That these
  are the two series the rolling means are taken of when no price change overflows is
  proved below (\<open>series_where_gain\<close>, \<open>series_where_loss\<close>).
\<close>

definition gain_series :: "real list \<Rightarrow> real list" where
  "gain_series prices = 0 # map (\<lambda>(a, b). max (b - a) 0) (zip prices (tl prices))"

definition loss_series :: "real list \<Rightarrow> real list" where
  "loss_series prices = 0 # map (\<lambda>(a, b). max (a - b) 0) (zip prices (tl prices))"

section \<open>Properties of position sizing\<close>

lemma total_loop_unchanged: "total_loop jp ps tot = tot"
  by (induction ps arbitrary: tot) (auto simp: get_current_price_def)

text \<open>
  Claim C2, as the code has it.  The size never exceeds the cash and, for positive
  liquidity, never exceeds a tenth of the liquidity, whatever the inputs.  The 20 percent
  cap, the sign and the zero at \<^verbatim>\<open>cash = 0\<close> hold for a confidence in [0, 1], a
  non-negative total value and a non-negative cash; the code checks none of the three.
\<close>

theorem calculate_trade_size_bounds:
  "calculate_trade_size p token c md \<le> cash p \<and>
   (get_or md ''liquidity'' 0 > 0 \<longrightarrow>
      calculate_trade_size p token c md \<le> 0.1 * get_or md ''liquidity'' 0) \<and>
   (0 \<le> c \<and> c \<le> 1 \<and> 0 \<le> total_value p \<longrightarrow>
      calculate_trade_size p token c md \<le> 0.2 * total_value p) \<and>
   (0 \<le> c \<and> 0 \<le> total_value p \<and> 0 \<le> cash p \<longrightarrow>
      0 \<le> calculate_trade_size p token c md) \<and>
   (0 \<le> c \<and> 0 \<le> total_value p \<and> cash p = 0 \<longrightarrow>
      calculate_trade_size p token c md = 0)"
proof -
  define x where "x = total_value p * 0.2 * c"
  define l where "l = get_or md ''liquidity'' 0"
  have size: "calculate_trade_size p token c md =
      (if (if l > 0 then min x (l * 0.1) else x) > cash p then cash p
       else (if l > 0 then min x (l * 0.1) else x))"
    by (simp add: calculate_trade_size_def Let_def x_def l_def)
  have cap: "x \<le> 0.2 * total_value p" if "0 \<le> c" "c \<le> 1" "0 \<le> total_value p"
  proof -
    have "c * total_value p \<le> 1 * total_value p"
      using that by (intro mult_right_mono) auto
    then show ?thesis by (simp add: x_def mult.commute)
  qed
  have pos: "0 \<le> x" if "0 \<le> c" "0 \<le> total_value p"
    using that by (simp add: x_def)
  have "calculate_trade_size p token c md \<le> cash p"
    unfolding size by simp
  moreover have "l > 0 \<longrightarrow> calculate_trade_size p token c md \<le> 0.1 * l"
    unfolding size by (simp add: min_def)
  moreover have "0 \<le> c \<and> c \<le> 1 \<and> 0 \<le> total_value p \<longrightarrow>
      calculate_trade_size p token c md \<le> 0.2 * total_value p"
    unfolding size using cap by (auto simp: min_def)
  moreover have "0 \<le> c \<and> 0 \<le> total_value p \<and> 0 \<le> cash p \<longrightarrow>
      0 \<le> calculate_trade_size p token c md"
    unfolding size using pos by (auto simp: min_def)
  moreover have "0 \<le> c \<and> 0 \<le> total_value p \<and> cash p = 0 \<longrightarrow>
      calculate_trade_size p token c md = 0"
    unfolding size using pos by (auto simp: min_def)
  ultimately show ?thesis
    unfolding l_def by blast
qed

theorem calculate_trade_size_bounds_witness:
  "calculate_trade_size \<lparr>cash = 30, positions = [], total_value = 1000\<rparr> ''SOL'' (1/2)
      [''liquidity'' \<mapsto> 500] \<le> 30 \<and>
   calculate_trade_size \<lparr>cash = 30, positions = [], total_value = 1000\<rparr> ''SOL'' (1/2)
      [''liquidity'' \<mapsto> 500] \<le> 50 \<and>
   calculate_trade_size \<lparr>cash = 30, positions = [], total_value = 1000\<rparr> ''SOL'' (1/2)
      [''liquidity'' \<mapsto> 500] \<le> 200 \<and>
   0 \<le> calculate_trade_size \<lparr>cash = 30, positions = [], total_value = 1000\<rparr> ''SOL'' (1/2)
      [''liquidity'' \<mapsto> 500] \<and>
   calculate_trade_size \<lparr>cash = 0, positions = [], total_value = 1000\<rparr> ''SOL'' (1/2)
      [''liquidity'' \<mapsto> 500] = 0"
  using calculate_trade_size_bounds
          [of "\<lparr>cash = 30, positions = [], total_value = 1000\<rparr>" "''SOL''" "1/2"
              "[''liquidity'' \<mapsto> 500]"]
        calculate_trade_size_bounds
          [of "\<lparr>cash = 0, positions = [], total_value = 1000\<rparr>" "''SOL''" "1/2"
              "[''liquidity'' \<mapsto> 500]"]
  by (simp add: get_or_def)

text \<open>
  The claim as stated, for every confidence and every portfolio state, fails: a
  negative cash is returned as the size; a confidence above 1 (1.2 here) passes the 20
  percent cap; and with \<^verbatim>\<open>cash = 0\<close> and a negative total value the size is negative,
  not 0.
\<close>

theorem calculate_trade_size_counterexample:
  "calculate_trade_size \<lparr>cash = -10, positions = [], total_value = 1000\<rparr> ''SOL'' (1/2)
      Map.empty < 0 \<and>
   calculate_trade_size \<lparr>cash = 1000, positions = [], total_value = 1000\<rparr> ''SOL'' 1.2
      Map.empty > 0.2 * 1000 \<and>
   calculate_trade_size \<lparr>cash = 0, positions = [(''SOL'', -5)], total_value = -500\<rparr> ''SOL''
      (1/2) Map.empty \<noteq> 0"
  by (simp add: calculate_trade_size_def get_or_def Let_def)

text \<open>
  Claim C8.  With \<^verbatim>\<open>total_value = 1000\<close>, \<^verbatim>\<open>cash = 1000\<close>, liquidity 500 and
  confidence 0.8 the size is exactly 50: the 20 percent cap gives 200, the confidence
  scales it to 160, the liquidity clamp takes min(160, 50) = 50 and the cash clamp
  leaves 50.
\<close>

theorem calculate_trade_size_scenario:
  "calculate_trade_size \<lparr>cash = 1000, positions = [], total_value = 1000\<rparr> ''SOL'' 0.8
     [''liquidity'' \<mapsto> 500] = 50"
  by (simp add: calculate_trade_size_def get_or_def Let_def)

section \<open>Properties of the portfolio update\<close>

text \<open>
  The cash and position arithmetic of \<^verbatim>\<open>update_portfolio\<close>: a buy pays
  \<open>amount * price\<close> and adds \<open>amount\<close> to the position, every other action is paid
  \<open>amount * price\<close> and takes \<open>amount\<close> off the position, with no floor at 0.
\<close>

lemma update_portfolio_buy:
  "trade_action t = ''buy'' \<Longrightarrow>
   cash (update_portfolio jp p t price) = cash p - trade_amount t * price \<and>
   positions (update_portfolio jp p t price) =
     dict_set (positions p) (trade_token t)
       (dict_get (positions p) (trade_token t) 0 + trade_amount t)"
  by (simp add: update_portfolio_def calculate_total_value_def Let_def)

lemma update_portfolio_sell:
  "trade_action t \<noteq> ''buy'' \<Longrightarrow>
   cash (update_portfolio jp p t price) = cash p + trade_amount t * price \<and>
   positions (update_portfolio jp p t price) =
     dict_set (positions p) (trade_token t)
       (dict_get (positions p) (trade_token t) 0 - trade_amount t)"
  by (simp add: update_portfolio_def calculate_total_value_def Let_def)

text \<open>
  The total value: \<^verbatim>\<open>get_current_price\<close> is an \<^verbatim>\<open>async def\<close> and line 237 calls it
  without \<^verbatim>\<open>await\<close>, so \<^verbatim>\<open>float(...)\<close> is handed a coroutine and raises for every
  token; the \<^verbatim>\<open>except\<close> of line 239 swallows it.  No position is ever valued.
\<close>

lemma update_portfolio_total_is_cash:
  "total_value (update_portfolio jp p t price) = cash (update_portfolio jp p t price)"
  by (simp add: update_portfolio_def calculate_total_value_def Let_def total_loop_unchanged)

text \<open>
  Claim C7 at a concrete trade.  1000 in cash, no position; 2 SOL are bought at 100 and
  the price source quotes SOL at 100.  Cash plus the position at its price is
  800 + 2 * 100 = 1000; the recomputed total value is 800.
\<close>

theorem update_portfolio_total_value_omits_positions:
  "update_portfolio [''SOL'' \<mapsto> 100] \<lparr>cash = 1000, positions = [], total_value = 1000\<rparr>
     \<lparr>trade_token = ''SOL'', trade_action = ''buy'', trade_amount = 2\<rparr> 100
   = \<lparr>cash = 800, positions = [(''SOL'', 2)], total_value = 800\<rparr>"
  by (simp add: update_portfolio_def calculate_total_value_def Let_def get_current_price_def)

section \<open>Properties of the signal engine\<close>

text \<open>The four contributions, named, and the signal as their sum.\<close>

lemma generate_trading_signals_strength:
  "signal_strength (generate_trading_signals t r l) =
     (if get_or t ''rsi'' 50 < 30 then 0.4 else if get_or t ''rsi'' 50 > 70 then - 0.4 else 0)
     + (if get_or t ''macd'' 0 > 0 then 0.2 else - 0.2)
     + 0.3 * (1 - min 1 (get_or r ''value_at_risk'' 0 / 0.1))
     + 0.3 * min 1 (get_or l ''depth_2_percent'' 0 / 100000)"
  by (simp add: generate_trading_signals_def Let_def)

text \<open>
  Claim C1.  For all three input dictionaries the action is BUY exactly when the signal
  strength is above 0.3, SELL exactly when it is below -0.3 and HOLD exactly when it
  lies in [-0.3, 0.3], both ends included (a signal strength of exactly 0.3 or exactly
  -0.3 is HOLD); the confidence is the absolute value of the signal strength.
\<close>

theorem generate_trading_signals_thresholds:
  "(signal_strength (generate_trading_signals t r l) > 0.3
      \<longleftrightarrow> action (generate_trading_signals t r l) = ''BUY'') \<and>
   (signal_strength (generate_trading_signals t r l) < - 0.3
      \<longleftrightarrow> action (generate_trading_signals t r l) = ''SELL'') \<and>
   (- 0.3 \<le> signal_strength (generate_trading_signals t r l) \<and>
    signal_strength (generate_trading_signals t r l) \<le> 0.3
      \<longleftrightarrow> action (generate_trading_signals t r l) = ''HOLD'') \<and>
   confidence (generate_trading_signals t r l)
     = \<bar>signal_strength (generate_trading_signals t r l)\<bar>"
proof -
  define s where "s = signal_strength (generate_trading_signals t r l)"
  have act: "action (generate_trading_signals t r l) =
      (if s > 0.3 then ''BUY'' else if s < - 0.3 then ''SELL'' else ''HOLD'')"
    by (simp add: s_def generate_trading_signals_def Let_def)
  have conf: "confidence (generate_trading_signals t r l) = \<bar>s\<bar>"
    by (simp add: s_def generate_trading_signals_def Let_def)
  show ?thesis
    unfolding s_def [symmetric] act conf by auto
qed

text \<open>
  Claim C4, as the code has it.  The confidence is the absolute value of the signal
  strength and is never negative.  It has no upper bound: for every technical and
  liquidity input and every bound \<open>B\<close> there is a negative value at risk for which the
  confidence exceeds \<open>B\<close>.
\<close>

theorem generate_trading_signals_confidence_unbounded:
  "0 \<le> confidence (generate_trading_signals t r l) \<and>
   confidence (generate_trading_signals t r l)
     = \<bar>signal_strength (generate_trading_signals t r l)\<bar> \<and>
   (\<exists>v<0. B < confidence (generate_trading_signals t [''value_at_risk'' \<mapsto> v] l))"
proof -
  have conf: "confidence (generate_trading_signals t r' l)
      = \<bar>signal_strength (generate_trading_signals t r' l)\<bar>" for r'
    by (simp add: generate_trading_signals_def Let_def)
  define a where "a = (if get_or t ''rsi'' 50 < 30 then 0.4
                        else if get_or t ''rsi'' 50 > 70 then - 0.4 else (0::real))"
  define b where "b = (if get_or t ''macd'' 0 > 0 then 0.2 else - (0.2::real))"
  define ls where "ls = 0.3 * min 1 (get_or l ''depth_2_percent'' 0 / 100000)"
  define v where "v = - (\<bar>B\<bar> + \<bar>a + b + ls\<bar> + 1)"
  have neg: "v < 0"
    by (simp add: v_def)
  have var: "get_or [''value_at_risk'' \<mapsto> v] ''value_at_risk'' 0 = v"
    by (simp add: get_or_def)
  have "min 1 (v / 0.1) = v / 0.1"
    using neg by (simp add: min_def)
  then have risk: "0.3 * (1 - min 1 (v / 0.1)) = 0.3 - 3 * v"
    by simp
  have "signal_strength (generate_trading_signals t [''value_at_risk'' \<mapsto> v] l)
      = a + b + 0.3 * (1 - min 1 (v / 0.1)) + ls"
    unfolding a_def b_def ls_def
    using generate_trading_signals_strength [of t "[''value_at_risk'' \<mapsto> v]" l]
    by (simp only: var)
  then have S: "signal_strength (generate_trading_signals t [''value_at_risk'' \<mapsto> v] l)
      = a + b + ls + 0.3 - 3 * v"
    unfolding risk by simp
  have "B < a + b + ls + 0.3 - 3 * v"
  proof -
    define x where "x = a + b + ls"
    define m where "m = \<bar>B\<bar>"
    define n where "n = \<bar>x\<bar>"
    have "B \<le> m" "- x \<le> n" "0 \<le> m" "0 \<le> n"
      by (simp_all add: m_def n_def)
    moreover have "v = - (m + n + 1)"
      by (simp add: v_def m_def n_def x_def)
    ultimately have "B < x + 0.3 - 3 * v"
      by simp
    then show ?thesis
      by (simp add: x_def)
  qed
  then have "B < \<bar>signal_strength (generate_trading_signals t [''value_at_risk'' \<mapsto> v] l)\<bar>"
    unfolding S by linarith
  then have "\<exists>v<0. B < confidence (generate_trading_signals t [''value_at_risk'' \<mapsto> v] l)"
    unfolding conf using neg by blast
  moreover have "0 \<le> confidence (generate_trading_signals t r l)"
    unfolding conf by simp
  ultimately show ?thesis
    using conf [of r] by blast
qed

text \<open>
  The claim as stated fails.  With an RSI of 20, a positive MACD, no value at risk and a
  depth of 100000 all four contributions are at their maximum and the confidence is
  above 1; so it is with a value at risk of -0.1 and no depth, where the risk
  contribution alone is 0.6.
\<close>

theorem generate_trading_signals_confidence_counterexample:
  "1 < confidence (generate_trading_signals [''rsi'' \<mapsto> 20, ''macd'' \<mapsto> 1]
       [''value_at_risk'' \<mapsto> 0] [''depth_2_percent'' \<mapsto> 100000]) \<and>
   1 < confidence (generate_trading_signals [''rsi'' \<mapsto> 20, ''macd'' \<mapsto> 1]
       [''value_at_risk'' \<mapsto> - 0.1] Map.empty)"
  by (simp add: generate_trading_signals_def get_or_def Let_def)

section \<open>Properties of the relative strength index\<close>

text \<open>
  Prices below half the overflow threshold: no price change overflows, and the two
  series under the rolling means hold numbers only.
\<close>

lemma million_below_overflow: "(10::real) ^ 6 < float_overflow / 2"
  by (simp add: float_overflow_def)

lemma small_prices_bounded:
  "\<forall>p \<in> set prices. \<bar>p\<bar> \<le> 10 ^ 6 \<Longrightarrow> \<forall>p \<in> set prices. \<bar>p\<bar> < float_overflow / 2"
  using million_below_overflow by fastforce

lemma fl_of_real_change:
  assumes "\<bar>a\<bar> < float_overflow / 2" "\<bar>b\<bar> < float_overflow / 2"
  shows "fl_of_real (b - a) = Fin (b - a)"
proof -
  have "\<bar>b - a\<bar> < float_overflow"
    using assms by linarith
  then show ?thesis
    by (simp add: fl_of_real_def abs_less_iff)
qed

lemma series_diff_bounded:
  assumes "\<forall>p \<in> set (p0 # ps). \<bar>p\<bar> < float_overflow / 2"
  shows "series_diff (p0 # ps) = NaN # map (\<lambda>(a, b). Fin (b - a)) (zip (p0 # ps) ps)"
proof -
  have "fl_of_real (b - a) = Fin (b - a)" if "(a, b) \<in> set (zip (p0 # ps) ps)" for a b
  proof -
    have "a \<in> set (p0 # ps)" "b \<in> set (p0 # ps)"
      using that by (auto dest: set_zip_leftD set_zip_rightD)
    then show ?thesis
      using assms by (intro fl_of_real_change) auto
  qed
  then have "map (\<lambda>(a, b). fl_of_real (b - a)) (zip (p0 # ps) ps)
      = map (\<lambda>(a, b). Fin (b - a)) (zip (p0 # ps) ps)"
    by (intro map_cong) auto
  then show ?thesis
    by (simp add: series_diff_def)
qed

lemma series_where_gain:
  assumes "prices \<noteq> []" "\<forall>p \<in> set prices. \<bar>p\<bar> < float_overflow / 2"
  shows "series_where (series_diff prices) fl_pos (Fin 0) = map Fin (gain_series prices)"
proof -
  obtain p0 ps where prices: "prices = p0 # ps"
    using assms(1) by (cases prices) auto
  show ?thesis
    unfolding prices series_diff_bounded [OF assms(2) [unfolded prices]]
    by (auto simp: series_where_def gain_series_def max_def)
qed

lemma series_where_loss:
  assumes "prices \<noteq> []" "\<forall>p \<in> set prices. \<bar>p\<bar> < float_overflow / 2"
  shows "map fl_neg (series_where (series_diff prices) fl_negative (Fin 0))
           = map Fin (loss_series prices)"
proof -
  obtain p0 ps where prices: "prices = p0 # ps"
    using assms(1) by (cases prices) auto
  show ?thesis
    unfolding prices series_diff_bounded [OF assms(2) [unfolded prices]]
    by (auto simp: series_where_def loss_series_def max_def)
qed

lemma length_series_where_diff:
  "length (series_where (series_diff prices) cond other) = length prices"
  by (cases prices) (simp_all add: series_where_def series_diff_def)

lemma length_gain_loss:
  "prices \<noteq> [] \<Longrightarrow> length (gain_series prices) = length prices"
  "prices \<noteq> [] \<Longrightarrow> length (loss_series prices) = length prices"
  by (cases prices; simp add: gain_series_def loss_series_def)+

lemma gain_loss_nonneg:
  "x \<in> set (gain_series prices) \<Longrightarrow> 0 \<le> x"
  "y \<in> set (loss_series prices) \<Longrightarrow> 0 \<le> y"
  by (auto simp: gain_series_def loss_series_def)

lemma gain_loss_nth:
  assumes "0 < i" "i < length prices"
  shows "gain_series prices ! i = max (prices ! i - prices ! (i - 1)) 0"
    and "loss_series prices ! i = max (prices ! (i - 1) - prices ! i) 0"
proof -
  obtain j where j: "i = Suc j" using assms(1) by (cases i) auto
  have "j < length (zip prices (tl prices))"
    using assms(2) j by simp
  then show "gain_series prices ! i = max (prices ! i - prices ! (i - 1)) 0"
    and "loss_series prices ! i = max (prices ! (i - 1) - prices ! i) 0"
    using assms(2) j by (simp_all add: gain_series_def loss_series_def nth_tl)
qed

text \<open>The rolling mean of a series of numbers: its length, and its last element.\<close>

lemma length_rolling_mean: "length (rolling_mean period s) = length s"
  by (simp add: rolling_mean_def)

lemma window_mean_numbers:
  "0 < period \<Longrightarrow> length xs = period \<Longrightarrow>
   window_mean period (map Fin xs) = Fin (sum_list xs / real period)"
  by (simp add: window_mean_def image_iff comp_def)

lemma last_rolling_mean_short:
  assumes "s \<noteq> []" "length s < period"
  shows "last (rolling_mean period s) = NaN"
proof -
  have "window_mean period (drop (Suc i - period) (take (Suc i) s)) = NaN" for i
  proof -
    have "length (drop (Suc i - period) (take (Suc i) s)) \<le> length s"
      by simp
    then have "length (drop (Suc i - period) (take (Suc i) s)) < period"
      using assms(2) by (rule le_less_trans)
    then show ?thesis
      unfolding window_mean_def by (simp only: simp_thms if_True)
  qed
  then show ?thesis
    using assms(1) by (simp add: rolling_mean_def last_map)
qed

lemma last_rolling_mean:
  assumes "0 < period" "period \<le> length xs"
  shows "last (rolling_mean period (map Fin xs))
           = Fin (sum_list (drop (length xs - period) xs) / real period)"
proof -
  let ?n = "length xs"
  have n: "0 < ?n" using assms by (cases xs) auto
  then have idx: "[0..<?n] \<noteq> []" "last [0..<?n] = ?n - 1"
    by simp_all
  have "last (rolling_mean period (map Fin xs))
      = window_mean period (drop (Suc (?n - 1) - period) (take (Suc (?n - 1)) (map Fin xs)))"
    unfolding rolling_mean_def using idx by (simp add: last_map)
  also have "Suc (?n - 1) = ?n"
    using n by simp
  also have "drop (?n - period) (take ?n (map Fin xs)) = map Fin (drop (?n - period) xs)"
    by (simp add: drop_map)
  also have "window_mean period (map Fin (drop (?n - period) xs))
      = Fin (sum_list (drop (?n - period) xs) / real period)"
    using assms by (intro window_mean_numbers) simp_all
  finally show ?thesis .
qed

text \<open>
  The value of \<^verbatim>\<open>calculate_rsi\<close> on at least \<open>period\<close> prices, from the mean gain and
  the mean loss of the last \<open>period\<close> places.
\<close>

lemma calculate_rsi_window:
  assumes "0 < period" "period \<le> length prices"
    and bounded: "\<forall>p \<in> set prices. \<bar>p\<bar> < float_overflow / 2"
  shows "calculate_rsi prices period =
     fl_sub (Fin 100) (fl_div (Fin 100) (fl_add (Fin 1)
       (fl_div
          (Fin (sum_list (drop (length prices - period) (gain_series prices)) / real period))
          (Fin (sum_list (drop (length prices - period) (loss_series prices)) / real period)))))"
proof -
  have ne: "prices \<noteq> []" using assms by auto
  let ?gain = "rolling_mean period (map Fin (gain_series prices))"
  let ?loss = "rolling_mean period (map Fin (loss_series prices))"
  have len: "length ?gain = length prices" "length ?loss = length prices"
    using ne by (simp_all add: length_rolling_mean length_gain_loss)
  then have ne2: "?gain \<noteq> []" "?loss \<noteq> []"
    using ne by auto
  have zip_ne: "zip ?gain ?loss \<noteq> []"
    using ne2 by (cases ?gain; cases ?loss) auto
  have lastz: "last (zip ?gain ?loss) = (last ?gain, last ?loss)"
    using ne2 len by (intro last_zip) simp_all
  have g: "last ?gain
      = Fin (sum_list (drop (length prices - period) (gain_series prices)) / real period)"
    using last_rolling_mean [of period "gain_series prices"] assms ne
    by (simp add: length_gain_loss)
  have l: "last ?loss
      = Fin (sum_list (drop (length prices - period) (loss_series prices)) / real period)"
    using last_rolling_mean [of period "loss_series prices"] assms ne
    by (simp add: length_gain_loss)
  show ?thesis
    unfolding calculate_rsi_def Let_def series_where_gain [OF ne bounded]
              series_where_loss [OF ne bounded]
    using zip_ne
    by (simp add: iloc_last_def last_map lastz g l)
qed

lemma calculate_rsi_empty: "calculate_rsi [] period = Fin 50"
  by (simp add: calculate_rsi_def series_diff_def series_where_def rolling_mean_def
                iloc_last_def)

text \<open>Fewer than \<open>period\<close> prices, but at least one: no exception, the value is NaN.\<close>

lemma calculate_rsi_short:
  assumes "prices \<noteq> []" "length prices < period"
  shows "calculate_rsi prices period = NaN"
proof -
  let ?gain = "rolling_mean period (series_where (series_diff prices) fl_pos (Fin 0))"
  let ?loss = "rolling_mean period
                 (map fl_neg (series_where (series_diff prices) fl_negative (Fin 0)))"
  have len: "length ?gain = length prices" "length ?loss = length prices"
    by (simp_all add: length_rolling_mean length_series_where_diff)
  then have ne2: "?gain \<noteq> []" "?loss \<noteq> []"
    using assms(1) by auto
  have zip_ne: "zip ?gain ?loss \<noteq> []"
    using ne2 by (cases ?gain; cases ?loss) auto
  have lastz: "last (zip ?gain ?loss) = (last ?gain, last ?loss)"
    using ne2 len by (intro last_zip) simp_all
  have "series_where (series_diff prices) fl_pos (Fin 0) \<noteq> []"
    using assms(1) length_series_where_diff [of prices fl_pos "Fin 0"] by auto
  moreover have "length (series_where (series_diff prices) fl_pos (Fin 0)) < period"
    using assms(2) by (simp add: length_series_where_diff)
  ultimately have g: "last ?gain = NaN"
    by (rule last_rolling_mean_short)
  show ?thesis
    unfolding calculate_rsi_def Let_def
    using zip_ne
    by (simp add: iloc_last_def last_map lastz g fl_sub_def)
qed

text \<open>A sum of non-negative numbers with a positive one among them is positive.\<close>

lemma sum_list_pos_member:
  fixes xs :: "real list"
  assumes "\<forall>x \<in> set xs. 0 \<le> x" "x \<in> set xs" "0 < x"
  shows "0 < sum_list xs"
proof -
  have "0 \<le> sum_list xs"
    using assms(1) by (simp add: sum_list_nonneg)
  moreover have "sum_list xs \<noteq> 0"
    using assms sum_list_nonneg_eq_0_iff [of xs] by force
  ultimately show ?thesis by simp
qed

text \<open>
  Claim C5, as the code has it.  On the empty series the value is 50.  On at least
  \<open>period\<close> prices, with a period between one and a million and prices that are whole
  numbers of magnitude at most a million, one of the last \<open>period\<close> of which, the first of
  the series apart, differs from the price before it, the value is a number in [0, 100].
  On such prices no float operation overflows and the sums under the two means are exact,
  so that the range is also the one of the floating-point computation.
\<close>

theorem calculate_rsi_range:
  "calculate_rsi [] period = Fin 50 \<and>
   (0 < period \<and> period \<le> length prices \<and> period \<le> 10 ^ 6 \<and>
    (\<forall>p \<in> set prices. p \<in> \<int> \<and> \<bar>p\<bar> \<le> 10 ^ 6) \<and>
    (\<exists>i. length prices - period \<le> i \<and> 0 < i \<and> i < length prices \<and>
         prices ! i \<noteq> prices ! (i - 1)) \<longrightarrow>
      (\<exists>r. calculate_rsi prices period = Fin r \<and> 0 \<le> r \<and> r \<le> 100))"
proof -
  have main: "\<exists>r. calculate_rsi prices period = Fin r \<and> 0 \<le> r \<and> r \<le> 100"
    if period: "0 < period" "period \<le> length prices"
      and small: "\<forall>p \<in> set prices. p \<in> \<int> \<and> \<bar>p\<bar> \<le> 10 ^ 6"
      and i: "length prices - period \<le> i" "0 < i" "i < length prices"
        "prices ! i \<noteq> prices ! (i - 1)"
    for i
  proof -
    let ?n = "length prices"
    let ?gs = "drop (?n - period) (gain_series prices)"
    let ?ls = "drop (?n - period) (loss_series prices)"
    define G where "G = sum_list ?gs / real period"
    define L where "L = sum_list ?ls / real period"
    have ne: "prices \<noteq> []" using period by auto
    have bounded: "\<forall>p \<in> set prices. \<bar>p\<bar> < float_overflow / 2"
      using small million_below_overflow by fastforce
    have gs_nonneg: "\<forall>x \<in> set ?gs. 0 \<le> x"
      using gain_loss_nonneg(1) [of _ prices] by (auto dest: in_set_dropD)
    have ls_nonneg: "\<forall>x \<in> set ?ls. 0 \<le> x"
      using gain_loss_nonneg(2) [of _ prices] by (auto dest: in_set_dropD)
    have G0: "0 \<le> G"
      unfolding G_def using gs_nonneg by (simp add: sum_list_nonneg)
    have L0: "0 \<le> L"
      unfolding L_def using ls_nonneg by (simp add: sum_list_nonneg)
    have in_gs: "gain_series prices ! i \<in> set ?gs"
    proof -
      have "?gs ! (i - (?n - period)) = gain_series prices ! i"
        using i period ne by (simp add: length_gain_loss)
      moreover have "i - (?n - period) < length ?gs"
        using i period ne by (simp add: length_gain_loss)
      ultimately show ?thesis
        by (metis nth_mem)
    qed
    have in_ls: "loss_series prices ! i \<in> set ?ls"
    proof -
      have "?ls ! (i - (?n - period)) = loss_series prices ! i"
        using i period ne by (simp add: length_gain_loss)
      moreover have "i - (?n - period) < length ?ls"
        using i period ne by (simp add: length_gain_loss)
      ultimately show ?thesis
        by (metis nth_mem)
    qed
    have "0 < gain_series prices ! i \<or> 0 < loss_series prices ! i"
      using gain_loss_nth [OF i(2,3)] i(4) by (auto simp: max_def)
    then have "0 < sum_list ?gs \<or> 0 < sum_list ?ls"
      using sum_list_pos_member [OF gs_nonneg in_gs] sum_list_pos_member [OF ls_nonneg in_ls]
      by blast
    then have GL: "0 < G \<or> 0 < L"
      unfolding G_def L_def using period(1) by (auto simp: zero_less_divide_iff)
    have rsi_value: "calculate_rsi prices period =
       fl_sub (Fin 100) (fl_div (Fin 100) (fl_add (Fin 1) (fl_div (Fin G) (Fin L))))"
      unfolding G_def L_def by (rule calculate_rsi_window [OF period bounded])
    show ?thesis
    proof (cases "L = 0")
      case True
      then have "0 < G" using GL by simp
      then have "calculate_rsi prices period = Fin 100"
        unfolding rsi_value using True by (simp add: fl_sub_def)
      then show ?thesis by simp
    next
      case False
      then have Lpos: "0 < L" using L0 by simp
      have one: "1 \<le> 1 + G / L"
        using G0 Lpos by simp
      then have quot: "0 \<le> 100 / (1 + G / L)" "100 / (1 + G / L) \<le> 100"
        by (simp_all add: divide_le_eq)
      have "calculate_rsi prices period = Fin (100 - 100 / (1 + G / L))"
        unfolding rsi_value using False one by (simp add: fl_sub_def)
      then show ?thesis
        using quot by simp
    qed
  qed
  show ?thesis
    using calculate_rsi_empty main by blast
qed

theorem calculate_rsi_range_witness:
  "\<exists>r. calculate_rsi [1, 2, 3, 4, 5, 6, 7, 8, 9, 10, 11, 12, 13, 12, 15] 14 = Fin r \<and>
       0 \<le> r \<and> r \<le> 100"
proof -
  let ?prices = "[1, 2, 3, 4, 5, 6, 7, 8, 9, 10, 11, 12, 13, 12, 15 :: real]"
  have "length ?prices - 14 \<le> 1 \<and> (0::nat) < 1 \<and> 1 < length ?prices \<and>
        ?prices ! 1 \<noteq> ?prices ! (1 - 1)"
    by simp
  then have change: "\<exists>i. length ?prices - 14 \<le> i \<and> 0 < i \<and> i < length ?prices \<and>
        ?prices ! i \<noteq> ?prices ! (i - 1)"
    by (rule exI)
  have period: "(0::nat) < 14 \<and> 14 \<le> length ?prices \<and> (14::nat) \<le> 10 ^ 6"
    by simp
  have small: "\<forall>p \<in> set ?prices. p \<in> \<int> \<and> \<bar>p\<bar> \<le> 10 ^ 6"
    by simp
  show ?thesis
    using calculate_rsi_range [of 14 ?prices] change period small
    by blast
qed

text \<open>
  The claim as stated fails.  Fourteen rising prices are fewer than \<open>period + 1\<close>
  points, and the value is 100, not 50: the window of 14 is full, the first place
  counting as no change.  One price alone and fifteen equal prices both give NaN, which
  is not a value in [0, 100].
\<close>

theorem calculate_rsi_counterexample:
  "calculate_rsi [1, 2, 3, 4, 5, 6, 7, 8, 9, 10, 11, 12, 13, 14] 14 = Fin 100 \<and>
   calculate_rsi [1, 2, 3, 4, 5, 6, 7, 8, 9, 10, 11, 12, 13, 14] 14 \<noteq> Fin 50 \<and>
   calculate_rsi [100] 14 = NaN \<and>
   calculate_rsi [5, 5, 5, 5, 5, 5, 5, 5, 5, 5, 5, 5, 5, 5, 5] 14 = NaN"
proof -
  let ?up = "[1, 2, 3, 4, 5, 6, 7, 8, 9, 10, 11, 12, 13, 14 :: real]"
  let ?flat = "[5, 5, 5, 5, 5, 5, 5, 5, 5, 5, 5, 5, 5, 5, 5 :: real]"
  have "\<forall>p \<in> set ?up. \<bar>p\<bar> \<le> 10 ^ 6"
    by simp
  then have up_bounded: "\<forall>p \<in> set ?up. \<bar>p\<bar> < float_overflow / 2"
    by (rule small_prices_bounded)
  have "\<forall>p \<in> set ?flat. \<bar>p\<bar> \<le> 10 ^ 6"
    by simp
  then have flat_bounded: "\<forall>p \<in> set ?flat. \<bar>p\<bar> < float_overflow / 2"
    by (rule small_prices_bounded)
  have up: "calculate_rsi ?up 14 = Fin 100"
    unfolding calculate_rsi_window [of 14 ?up, OF _ _ up_bounded, simplified]
    by (simp add: gain_series_def loss_series_def fl_sub_def)
  have flat: "calculate_rsi ?flat 14 = NaN"
    unfolding calculate_rsi_window [of 14 ?flat, OF _ _ flat_bounded, simplified]
    by (simp add: gain_series_def loss_series_def fl_sub_def)
  have short: "calculate_rsi [100] 14 = NaN"
    by (rule calculate_rsi_short) simp_all
  show ?thesis
    using up flat short by simp
qed

text \<open>
  Three finite prices whose first change overflows: the infinity makes the mean gain of
  the last window NaN, and so the value.
\<close>

lemma series_diff_overflow:
  "series_diff [- (2 ^ 1023), 2 ^ 1023, 0] = [NaN, PInf, Fin (- (2 ^ 1023))]"
  by (simp add: series_diff_def fl_of_real_def float_overflow_def)

lemma calculate_rsi_overflow:
  "calculate_rsi [- (2 ^ 1023), 2 ^ 1023, 0] 2 = NaN"
  unfolding calculate_rsi_def series_diff_overflow
  by (simp add: Let_def series_where_def rolling_mean_def window_mean_def iloc_last_def
                fl_sub_def upt_rec)

section \<open>Properties of the memory store\<close>

subsection \<open>Importance\<close>




subsection \<open>Win rate\<close>

text \<open>What one call of \<^verbatim>\<open>_update_metrics\<close> does to the count and to the win rate.\<close>

lemma update_metrics_total_trades:
  "total_trades (fst (update_metrics py m d)) = total_trades m + 1"
  by (simp add: update_metrics_def Let_def split: sum.splits)

lemma update_metrics_win_rate_profit:
  assumes "has_key d ''profit''"
    and "py_float_value py (dict_get d ''profit'' (Num 0)) = Inr p"
  shows "win_rate (fst (update_metrics py m d))
           = (win_rate m * (real (total_trades m + 1) - 1) + (if p > 0 then 1 else 0))
               / real (total_trades m + 1)"
  using assms by (simp add: update_metrics_def Let_def split: sum.splits)

lemma update_metrics_win_rate_no_profit:
  assumes "\<not> has_key d ''profit''"
  shows "win_rate (fst (update_metrics py m d)) = win_rate m"
  using assms by (simp add: update_metrics_def Let_def split: sum.splits)

lemma update_metrics_win_rate_cases:
  "win_rate (fst (update_metrics py m d)) = win_rate m \<or>
   (\<exists>i\<in>{0, 1}. win_rate (fst (update_metrics py m d))
       = (win_rate m * (real (total_trades m + 1) - 1) + i) / real (total_trades m + 1))"
  by (simp add: update_metrics_def Let_def split: sum.splits)

text \<open>A convex combination with weight \<open>1 / n\<close> keeps a value in [0, 1].\<close>

lemma convex_step:
  fixes w i :: real and n :: nat
  assumes "0 \<le> w" "w \<le> 1" "0 \<le> i" "i \<le> 1"
  shows "0 \<le> (w * (real (n + 1) - 1) + i) / real (n + 1) \<and>
         (w * (real (n + 1) - 1) + i) / real (n + 1) \<le> 1"
proof -
  have "w * real n \<le> 1 * real n"
    using assms by (intro mult_right_mono) auto
  then have "w * real n + i \<le> real n + 1"
    using assms by simp
  moreover have "0 \<le> w * real n + i"
    using assms by simp
  ultimately show ?thesis
    by (simp add: divide_le_eq)
qed

lemma update_metrics_win_rate_bounds:
  assumes "0 \<le> win_rate m" "win_rate m \<le> 1"
  shows "0 \<le> win_rate (fst (update_metrics py m d)) \<and>
         win_rate (fst (update_metrics py m d)) \<le> 1"
proof -
  consider "win_rate (fst (update_metrics py m d)) = win_rate m"
    | i where "i \<in> {0, 1::real}"
        "win_rate (fst (update_metrics py m d))
           = (win_rate m * (real (total_trades m + 1) - 1) + i) / real (total_trades m + 1)"
    using update_metrics_win_rate_cases [of py m d] by blast
  then show ?thesis
  proof cases
    case 1
    then show ?thesis using assms by simp
  next
    case 2
    then have "0 \<le> i" "i \<le> 1" by auto
    then show ?thesis
      unfolding 2(2) using assms by (intro convex_step)
  qed
qed

lemma foldl_update_metrics_bounds:
  assumes "0 \<le> win_rate m" "win_rate m \<le> 1"
  shows "0 \<le> win_rate (foldl (\<lambda>m d. fst (update_metrics py m d)) m ds) \<and>
         win_rate (foldl (\<lambda>m d. fst (update_metrics py m d)) m ds) \<le> 1"
  using assms
proof (induction ds arbitrary: m)
  case Nil
  then show ?case by simp
next
  case (Cons d ds)
  show ?case
    using Cons.IH [of "fst (update_metrics py m d)"]
          update_metrics_win_rate_bounds [OF Cons.prems, of py d]
    by simp
qed

text \<open>\<^verbatim>\<open>add\<close> changes the metrics only through \<^verbatim>\<open>_update_metrics\<close>.\<close>

lemma metrics_consolidate_memories:
  "metrics (consolidate_memories py now ms) = metrics ms"
  by (simp add: consolidate_memories_def split: sum.splits)

lemma metrics_add:
  "metrics (add py now ms t d md) = metrics ms \<or>
   metrics (add py now ms t d md) = fst (update_metrics py (metrics ms) d)"
  by (auto simp: add_def Let_def metrics_consolidate_memories
           split: sum.splits prod.splits option.splits)

lemma add_all_win_rate_bounds:
  assumes "0 \<le> win_rate (metrics ms)" "win_rate (metrics ms) \<le> 1"
  shows "0 \<le> win_rate (metrics (add_all py ms cs)) \<and> win_rate (metrics (add_all py ms cs)) \<le> 1"
  using assms unfolding add_all_def
proof (induction cs arbitrary: ms)
  case Nil
  then show ?case by simp
next
  case (Cons c cs)
  have step: "0 \<le> win_rate (metrics (add_call py ms c)) \<and> win_rate (metrics (add_call py ms c)) \<le> 1"
    unfolding add_call_def
    using metrics_add [of py "call_now c" ms "call_type c" "call_data c" "call_metadata c"]
          update_metrics_win_rate_bounds [OF Cons.prems, of py "call_data c"] Cons.prems
    by auto
  show ?case
    using Cons.IH [of "add_call py ms c"] step by simp
qed

text \<open>
  Claim C10.  From a fresh store the win rate stays in [0, 1], along every sequence of
  calls of \<^verbatim>\<open>_update_metrics\<close> and along every sequence of calls of \<^verbatim>\<open>add\<close>.  A
  call whose data has a readable profit replaces the win rate \<open>w\<close> by
  \<open>(w * (n - 1) + indicator) / n\<close>, where \<open>n\<close> is the new trade count and the
  indicator is 1 for a positive profit and 0 otherwise; a call whose data has no profit
  key leaves the win rate as it was.
\<close>

theorem win_rate_in_unit_interval:
  "0 \<le> win_rate (foldl (\<lambda>m d. fst (update_metrics py m d)) (metrics (init a b c)) ds) \<and>
   win_rate (foldl (\<lambda>m d. fst (update_metrics py m d)) (metrics (init a b c)) ds) \<le> 1 \<and>
   0 \<le> win_rate (metrics (add_all py (init a b c) cs)) \<and>
   win_rate (metrics (add_all py (init a b c) cs)) \<le> 1 \<and>
   (has_key d ''profit'' \<and> py_float_value py (dict_get d ''profit'' (Num 0)) = Inr p \<longrightarrow>
      total_trades (fst (update_metrics py m d)) = total_trades m + 1 \<and>
      win_rate (fst (update_metrics py m d))
        = (win_rate m * (real (total_trades m + 1) - 1) + (if p > 0 then 1 else 0))
            / real (total_trades m + 1)) \<and>
   (\<not> has_key d ''profit'' \<longrightarrow> win_rate (fst (update_metrics py m d)) = win_rate m)"
proof -
  have fresh: "0 \<le> win_rate (metrics (init a b c))" "win_rate (metrics (init a b c)) \<le> 1"
    by (simp_all add: init_def)
  show ?thesis
    using foldl_update_metrics_bounds [OF fresh, of py ds]
          add_all_win_rate_bounds [OF fresh, of py cs]
          update_metrics_total_trades [of py m d]
          update_metrics_win_rate_profit [of d py p m]
          update_metrics_win_rate_no_profit [of d py m]
    by blast
qed

theorem win_rate_in_unit_interval_witness:
  "win_rate (foldl (\<lambda>m d. fst (update_metrics plain_builtins m d)) (metrics default_init)
      [[(''profit'', Num 5)], [(''profit'', Num (- 1))]]) \<le> 1 \<and>
   win_rate (fst (update_metrics plain_builtins (metrics default_init) [(''profit'', Num 5)]))
      = 1 \<and>
   win_rate (fst (update_metrics plain_builtins (metrics default_init) [(''size'', Num 5)]))
      = 0"
proof -
  have k1: "has_key [(''profit'', Num 5)] ''profit''"
    by (simp add: has_key_def)
  have f1: "py_float_value plain_builtins (dict_get [(''profit'', Num 5)] ''profit'' (Num 0))
      = Inr 5"
    by simp
  have k2: "\<not> has_key [(''size'', Num 5)] ''profit''"
    by (simp add: has_key_def)
  show ?thesis
    using win_rate_in_unit_interval
            [of plain_builtins 1000 "0.5" 100
                "[[(''profit'', Num 5)], [(''profit'', Num (- 1))]]" "[]"
                "[(''profit'', Num 5)]" 5 "metrics default_init"]
          win_rate_in_unit_interval
            [of plain_builtins 1000 "0.5" 100 "[]" "[]"
                "[(''size'', Num 5)]" 0 "metrics default_init"]
          k1 f1 k2
    by (simp add: default_init_def init_def)
qed

subsection \<open>Consolidation\<close>

text \<open>Dictionary operations and the removal of one key.\<close>

lemma has_key_filter_other:
  "k \<noteq> k0 \<Longrightarrow> has_key (filter (\<lambda>(k', v). k' \<noteq> k0) d) k = has_key d k"
  by (induction d) (auto simp: has_key_def)

lemma dict_get_filter_other:
  "k \<noteq> k0 \<Longrightarrow> dict_get (filter (\<lambda>(k', v). k' \<noteq> k0) d) k dflt = dict_get d k dflt"
  by (induction d) auto

lemma dict_set_filter_other:
  "k \<noteq> k0 \<Longrightarrow>
   filter (\<lambda>(k', v). k' \<noteq> k0) (dict_set d k v) = dict_set (filter (\<lambda>(k', v). k' \<noteq> k0) d) k v"
  by (induction d) auto

lemma dict_set_filter_same:
  "filter (\<lambda>(k', v). k' \<noteq> k0) (dict_set d k0 v) = filter (\<lambda>(k', v). k' \<noteq> k0) d"
  by (induction d) auto

lemma set_dict_set: "set (dict_set d k v) \<subseteq> insert (k, v) (set d)"
  by (induction d) (auto split: if_splits)

lemma dict_get_cases: "dict_get d k dflt = dflt \<or> (k, dict_get d k dflt) \<in> set d"
  by (induction d) (auto split: if_splits)

lemma dict_get_dict_set: "dict_get (dict_set d k v) k dflt = v"
  by (induction d) auto

text \<open>
  Grouping commutes with the removal of a key: the groups of the other keys are the
  groups of the buffer without the entries of that key.
\<close>

lemma group_loop_filter:
  "filter (\<lambda>(k, g). k \<noteq> k0) (group_loop py xs gs)
     = group_loop py (filter (\<lambda>m. group_key py m \<noteq> k0) xs) (filter (\<lambda>(k, g). k \<noteq> k0) gs)"
proof (induction xs arbitrary: gs)
  case Nil
  then show ?case by simp
next
  case (Cons m xs)
  show ?case
  proof (cases "group_key py m = k0")
    case True
    then show ?thesis
      by (simp add: Let_def Cons.IH dict_set_filter_same)
  next
    case False
    then show ?thesis
      by (simp add: Let_def Cons.IH dict_set_filter_other dict_get_filter_other
                    has_key_filter_other dict_get_dict_set)
  qed
qed

text \<open>A group is no longer than what it held before plus the entries of its key.\<close>

lemma group_loop_length:
  assumes "\<forall>(k, g) \<in> set gs. k = k0 \<longrightarrow> length g \<le> b"
  shows "\<forall>(k, g) \<in> set (group_loop py xs gs).
           k = k0 \<longrightarrow> length g \<le> b + length (filter (\<lambda>m. group_key py m = k0) xs)"
  using assms
proof (induction xs arbitrary: gs b)
  case Nil
  then show ?case by simp
next
  case (Cons m xs)
  define k where "k = group_key py m"
  define gs1 where "gs1 = (if \<not> has_key gs k then dict_set gs k [] else gs)"
  define gs2 where "gs2 = dict_set gs1 k (dict_get gs1 k [] @ [m])"
  have step: "group_loop py (m # xs) gs = group_loop py xs gs2"
    by (simp add: Let_def k_def gs1_def gs2_def)
  have b1: "\<forall>(k', g) \<in> set gs1. k' = k0 \<longrightarrow> length g \<le> b"
    using Cons.prems set_dict_set [of gs k "[]"] by (auto simp: gs1_def)
  have old: "length (dict_get gs1 k []) \<le> b" if "k = k0"
    using dict_get_cases [of gs1 k "[]"] b1 that by auto
  show ?case
  proof (cases "k = k0")
    case True
    have "\<forall>(k', g) \<in> set gs2. k' = k0 \<longrightarrow> length g \<le> Suc b"
      using b1 old [OF True] set_dict_set [of gs1 k "dict_get gs1 k [] @ [m]"]
      by (fastforce simp: gs2_def)
    from Cons.IH [OF this] show ?thesis
      unfolding step using True by (simp add: k_def)
  next
    case False
    have "\<forall>(k', g) \<in> set gs2. k' = k0 \<longrightarrow> length g \<le> b"
      using b1 False set_dict_set [of gs1 k "dict_get gs1 k [] @ [m]"]
      by (fastforce simp: gs2_def)
    from Cons.IH [OF this] show ?thesis
      unfolding step using False by (simp add: k_def)
  qed
qed

text \<open>The second loop only looks at groups of more than one entry.\<close>

lemma consolidate_loop_filter:
  "consolidate_loop now gs acc = consolidate_loop now (filter (\<lambda>g. 1 < length g) gs) acc"
  by (induction gs arbitrary: acc) (auto split: sum.splits)

lemma filter_long_groups:
  assumes "\<forall>(k, g) \<in> set G. k = k0 \<longrightarrow> length g \<le> 1"
  shows "filter (\<lambda>g. 1 < length g) (map snd G)
           = filter (\<lambda>g. 1 < length g) (map snd (filter (\<lambda>(k, g). k \<noteq> k0) G))"
  using assms by (induction G) auto

text \<open>Every entry the second loop adds carries the clock reading of the consolidation.\<close>

lemma consolidate_loop_timestamp:
  "consolidate_loop now gs acc = Inr c \<Longrightarrow> x \<in> set c \<Longrightarrow> x \<in> set acc \<or> timestamp x = now"
proof (induction gs arbitrary: acc)
  case Nil
  then show ?case by simp
next
  case (Cons g gs)
  show ?case
  proof (cases "1 < length g")
    case False
    then show ?thesis using Cons by simp
  next
    case True
    then obtain d where d: "merge_memory_data g = Inr d"
      using Cons.prems(1) by (auto split: sum.splits)
    from Cons.prems(1) True d
    have "consolidate_loop now gs
            (acc @ [\<lparr>timestamp = now, type = type (hd g), data = d,
                     importance = max_importance g, metadata = None\<rparr>]) = Inr c"
      by simp
    from Cons.IH [OF this Cons.prems(2)] show ?thesis by auto
  qed
qed

text \<open>The outcome of the two loops does not depend on an entry that is alone in its group.\<close>

lemma consolidate_loop_solitary:
  assumes "filter (\<lambda>m. group_key py m = group_key py e) xs = [e]"
  shows "consolidate_loop now (map snd (group_loop py xs [])) []
           = consolidate_loop now
               (map snd (group_loop py (filter (\<lambda>m. group_key py m \<noteq> group_key py e) xs) [])) []"
proof -
  let ?k0 = "group_key py e"
  have "\<forall>(k, g) \<in> set (group_loop py xs []).
          k = ?k0 \<longrightarrow> length g \<le> 0 + length (filter (\<lambda>m. group_key py m = ?k0) xs)"
    by (rule group_loop_length) simp
  then have short: "\<forall>(k, g) \<in> set (group_loop py xs []). k = ?k0 \<longrightarrow> length g \<le> 1"
    using assms by simp
  have "consolidate_loop now (map snd (group_loop py xs [])) []
      = consolidate_loop now (filter (\<lambda>g. 1 < length g) (map snd (group_loop py xs []))) []"
    by (rule consolidate_loop_filter)
  also have "\<dots> = consolidate_loop now
      (filter (\<lambda>g. 1 < length g)
         (map snd (filter (\<lambda>(k, g). k \<noteq> ?k0) (group_loop py xs [])))) []"
    by (simp only: filter_long_groups [OF short])
  also have "\<dots> = consolidate_loop now
      (map snd (filter (\<lambda>(k, g). k \<noteq> ?k0) (group_loop py xs []))) []"
    by (rule consolidate_loop_filter [symmetric])
  also have "filter (\<lambda>(k, g). k \<noteq> ?k0) (group_loop py xs [])
      = group_loop py (filter (\<lambda>m. group_key py m \<noteq> ?k0) xs) []"
    using group_loop_filter [of ?k0 py xs "[]"] by simp
  finally show ?thesis .
qed

text \<open>
  Claim C3, as the code has it.  An entry that is alone in its group does not survive
  consolidation.  When the consolidation completes, the new short-term buffer holds the
  merged entries of the groups of two or more and nothing else: it is what consolidating
  the buffer without the solitary entry gives, and the solitary entry is not in it
  (every new entry carries the clock reading of the consolidation).  A buffer that holds
  one entry only is emptied.  When a merge raises, the store is left as it was.
\<close>

theorem consolidate_memories_drops_solitary:
  "(filter (\<lambda>m. group_key py m = group_key py e) (short_term ms) = [e] \<and>
    consolidate_loop now (map snd (group_loop py (short_term ms) [])) [] = Inr c \<longrightarrow>
      short_term (consolidate_memories py now ms) = deque_extend short_capacity [] c \<and>
      consolidate_loop now
        (map snd (group_loop py
           (filter (\<lambda>m. group_key py m \<noteq> group_key py e) (short_term ms)) [])) [] = Inr c \<and>
      (timestamp e \<noteq> now \<longrightarrow> e \<notin> set c)) \<and>
   (short_term ms = [e] \<longrightarrow> short_term (consolidate_memories py now ms) = []) \<and>
   (consolidate_loop now (map snd (group_loop py (short_term ms) [])) [] = Inl err \<longrightarrow>
      consolidate_memories py now ms = ms)"
proof -
  have main: "short_term (consolidate_memories py now ms) = deque_extend short_capacity [] c \<and>
      consolidate_loop now
        (map snd (group_loop py
           (filter (\<lambda>m. group_key py m \<noteq> group_key py e) (short_term ms)) [])) [] = Inr c \<and>
      (timestamp e \<noteq> now \<longrightarrow> e \<notin> set c)"
    if solitary: "filter (\<lambda>m. group_key py m = group_key py e) (short_term ms) = [e]"
      and ok: "consolidate_loop now (map snd (group_loop py (short_term ms) [])) [] = Inr c"
  proof -
    have "short_term (consolidate_memories py now ms) = deque_extend short_capacity [] c"
      using ok by (simp add: consolidate_memories_def)
    moreover have "consolidate_loop now
        (map snd (group_loop py
           (filter (\<lambda>m. group_key py m \<noteq> group_key py e) (short_term ms)) [])) [] = Inr c"
      using consolidate_loop_solitary [OF solitary, of now] ok by simp
    moreover have "e \<notin> set c" if "timestamp e \<noteq> now"
      using consolidate_loop_timestamp [OF ok, of e] that by auto
    ultimately show ?thesis by blast
  qed
  have single: "short_term (consolidate_memories py now ms) = []" if "short_term ms = [e]"
    using that
    by (simp add: consolidate_memories_def Let_def has_key_def deque_extend_def)
  have failed: "consolidate_memories py now ms = ms"
    if "consolidate_loop now (map snd (group_loop py (short_term ms) [])) [] = Inl err"
    using that by (simp add: consolidate_memories_def)
  show ?thesis
    using main single failed by blast
qed

theorem consolidate_memories_drops_solitary_witness:
  "short_term (consolidate_memories plain_builtins ''t4''
       (default_init\<lparr>short_term := [sol_trade_a, jup_error, sol_trade_b]\<rparr>))
     = [\<lparr>timestamp = ''t4'', type = ''trade'',
         data = [(''token'', Str ''SOL''), (''size'', Num 200)],
         importance = 0.53, metadata = None\<rparr>] \<and>
   jup_error \<notin> set [\<lparr>timestamp = ''t4'', type = ''trade'',
         data = [(''token'', Str ''SOL''), (''size'', Num 200)],
         importance = 0.53, metadata = None\<rparr>] \<and>
   short_term (consolidate_memories plain_builtins ''t4''
       (default_init\<lparr>short_term := [jup_error]\<rparr>)) = []"
proof -
  let ?ms = "default_init\<lparr>short_term := [sol_trade_a, jup_error, sol_trade_b]\<rparr>"
  let ?merged = "\<lparr>timestamp = ''t4'', type = ''trade'',
         data = [(''token'', Str ''SOL''), (''size'', Num 200)],
         importance = 0.53, metadata = None\<rparr>"
  have keys: "group_key plain_builtins sol_trade_a = ''trade_SOL''"
    "group_key plain_builtins sol_trade_b = ''trade_SOL''"
    "group_key plain_builtins jup_error = ''error_JUP''"
    by (simp_all add: group_key_def sol_trade_a_def sol_trade_b_def jup_error_def)
  have solitary: "filter (\<lambda>m. group_key plain_builtins m = group_key plain_builtins jup_error)
        (short_term ?ms) = [jup_error]"
    by (simp add: keys)
  have groups: "map snd (group_loop plain_builtins (short_term ?ms) [])
        = [[sol_trade_a, sol_trade_b], [jup_error]]"
    by (simp add: keys Let_def has_key_def)
  have merged: "merge_memory_data [sol_trade_a, sol_trade_b]
        = Inr [(''token'', Str ''SOL''), (''size'', Num 200)]"
    by (simp add: merge_memory_data_def sol_trade_a_def sol_trade_b_def Let_def has_key_def)
  have top: "max_importance [sol_trade_a, sol_trade_b] = 0.53"
    by (simp add: max_importance_def sol_trade_a_def sol_trade_b_def)
  have first: "type (hd [sol_trade_a, sol_trade_b]) = ''trade''"
    by (simp add: sol_trade_a_def)
  have ok: "consolidate_loop ''t4'' (map snd (group_loop plain_builtins (short_term ?ms) [])) []
        = Inr [?merged]"
    unfolding groups by (simp add: merged top first del: list.sel)
  have stamp: "timestamp jup_error \<noteq> ''t4''"
    by (simp add: jup_error_def)
  have one: "short_term (default_init\<lparr>short_term := [jup_error]\<rparr>) = [jup_error]"
    by simp
  have "short_term (consolidate_memories plain_builtins ''t4'' ?ms)
          = deque_extend short_capacity [] [?merged] \<and> jup_error \<notin> set [?merged]"
    using consolidate_memories_drops_solitary
            [of plain_builtins jup_error ?ms "''t4''" "[?merged]" TypeError]
          solitary ok stamp
    by blast
  moreover have "short_term (consolidate_memories plain_builtins ''t4''
       (default_init\<lparr>short_term := [jup_error]\<rparr>)) = []"
    using consolidate_memories_drops_solitary
            [of plain_builtins jup_error "default_init\<lparr>short_term := [jup_error]\<rparr>" "''t4''"
                "[]" TypeError]
          one
    by blast
  ultimately show ?thesis
    by (simp add: deque_extend_def deque_append_def short_capacity_def)
qed

text \<open>
  The claim as stated fails: the JUP error is alone in its group, it is not in the
  buffer after the consolidation, and a buffer that holds nothing but that entry is
  emptied.
\<close>

theorem consolidate_memories_counterexample:
  "filter (\<lambda>m. group_key plain_builtins m = group_key plain_builtins jup_error)
       [sol_trade_a, jup_error, sol_trade_b] = [jup_error] \<and>
   jup_error \<notin> set (short_term (consolidate_memories plain_builtins ''t4''
       (default_init\<lparr>short_term := [sol_trade_a, jup_error, sol_trade_b]\<rparr>))) \<and>
   short_term (consolidate_memories plain_builtins ''t4''
       (default_init\<lparr>short_term := [jup_error]\<rparr>)) = []"
proof -
  have keys: "group_key plain_builtins sol_trade_a = ''trade_SOL''"
    "group_key plain_builtins sol_trade_b = ''trade_SOL''"
    "group_key plain_builtins jup_error = ''error_JUP''"
    by (simp_all add: group_key_def sol_trade_a_def sol_trade_b_def jup_error_def)
  have merged: "merge_memory_data [sol_trade_a, sol_trade_b]
        = Inr [(''token'', Str ''SOL''), (''size'', Num 200)]"
    by (simp add: merge_memory_data_def sol_trade_a_def sol_trade_b_def Let_def has_key_def)
  have "short_term (consolidate_memories plain_builtins ''t4''
       (default_init\<lparr>short_term := [sol_trade_a, jup_error, sol_trade_b]\<rparr>))
     = [\<lparr>timestamp = ''t4'', type = type (hd [sol_trade_a, sol_trade_b]),
         data = [(''token'', Str ''SOL''), (''size'', Num 200)],
         importance = max_importance [sol_trade_a, sol_trade_b], metadata = None\<rparr>]"
    by (simp add: consolidate_memories_def keys Let_def has_key_def merged deque_extend_def
                  deque_append_def short_capacity_def)
  moreover have "short_term (consolidate_memories plain_builtins ''t4''
       (default_init\<lparr>short_term := [jup_error]\<rparr>)) = []"
    by (simp add: consolidate_memories_def Let_def has_key_def deque_extend_def)
  ultimately have "jup_error \<notin> set (short_term (consolidate_memories plain_builtins ''t4''
       (default_init\<lparr>short_term := [sol_trade_a, jup_error, sol_trade_b]\<rparr>))) \<and>
   short_term (consolidate_memories plain_builtins ''t4''
       (default_init\<lparr>short_term := [jup_error]\<rparr>)) = []"
    by (simp add: jup_error_def)
  moreover have "filter (\<lambda>m. group_key plain_builtins m = group_key plain_builtins jup_error)
       [sol_trade_a, jup_error, sol_trade_b] = [jup_error]"
    by (simp add: keys)
  ultimately show ?thesis
    by blast
qed

subsection \<open>The two buffers\<close>

text \<open>A bounded deque: the length bound, and which element an append evicts.\<close>

lemma length_deque_append:
  "length xs \<le> n \<Longrightarrow> length (deque_append n xs x) \<le> n"
  by (simp add: deque_append_def Let_def)

lemma deque_append_full:
  "length xs = n \<Longrightarrow> 0 < n \<Longrightarrow> deque_append n xs x = tl xs @ [x]"
  by (cases xs) (simp_all add: deque_append_def Let_def)

lemma deque_append_room:
  "length xs < n \<Longrightarrow> deque_append n xs x = xs @ [x]"
  by (simp add: deque_append_def Let_def)

lemma length_deque_extend:
  "length xs \<le> n \<Longrightarrow> length (deque_extend n xs ys) \<le> n"
  unfolding deque_extend_def
  by (induction ys arbitrary: xs) (simp_all add: length_deque_append)

text \<open>Consolidation touches the short-term buffer only, and refills a bounded deque.\<close>

lemma consolidate_memories_frame:
  "long_term (consolidate_memories py now ms) = long_term ms"
  "max_size (consolidate_memories py now ms) = max_size ms"
  "importance_threshold (consolidate_memories py now ms) = importance_threshold ms"
  "consolidation_interval (consolidate_memories py now ms) = consolidation_interval ms"
  by (simp_all add: consolidate_memories_def split: sum.splits)

lemma length_consolidate_memories:
  "length (short_term ms) \<le> short_capacity \<Longrightarrow>
   length (short_term (consolidate_memories py now ms)) \<le> short_capacity"
  by (simp add: consolidate_memories_def length_deque_extend split: sum.splits)

text \<open>
  The shape of one \<^verbatim>\<open>add\<close>: nothing happens, or the entry is appended (to the long-term
  buffer too when it reaches the threshold), the metrics may change, and the store may
  then be consolidated.
\<close>

lemma add_shape:
  "add py now ms t d md = ms \<or>
   (\<exists>imp m'. calculate_importance py t d = Inr imp \<and>
      (add py now ms t d md
         = ms\<lparr>short_term := deque_append short_capacity (short_term ms)
                  \<lparr>timestamp = now, type = t, data = d, importance = imp, metadata = md\<rparr>,
               long_term := (if imp \<ge> importance_threshold ms
                             then deque_append (max_size ms) (long_term ms)
                                    \<lparr>timestamp = now, type = t, data = d, importance = imp,
                                     metadata = md\<rparr>
                             else long_term ms),
               metrics := m'\<rparr> \<or>
       add py now ms t d md
         = consolidate_memories py now
            (ms\<lparr>short_term := deque_append short_capacity (short_term ms)
                  \<lparr>timestamp = now, type = t, data = d, importance = imp, metadata = md\<rparr>,
               long_term := (if imp \<ge> importance_threshold ms
                             then deque_append (max_size ms) (long_term ms)
                                    \<lparr>timestamp = now, type = t, data = d, importance = imp,
                                     metadata = md\<rparr>
                             else long_term ms),
               metrics := m'\<rparr>)))"
proof (cases "calculate_importance py t d")
  case (Inl e)
  then show ?thesis by (simp add: add_def)
next
  case (Inr imp)
  define E where "E = \<lparr>timestamp = now, type = t, data = d, importance = imp, metadata = md\<rparr>"
  define S where "S = deque_append short_capacity (short_term ms) E"
  define L where "L = (if imp \<ge> importance_threshold ms
                       then deque_append (max_size ms) (long_term ms) E else long_term ms)"
  have "\<exists>m'. add py now ms t d md = ms\<lparr>short_term := S, long_term := L, metrics := m'\<rparr> \<or>
             add py now ms t d md
               = consolidate_memories py now (ms\<lparr>short_term := S, long_term := L, metrics := m'\<rparr>)"
  proof (cases "t = ''trade''")
    case True
    obtain m r where mr: "update_metrics py (metrics ms) d = (m, r)"
      by (cases "update_metrics py (metrics ms) d")
    have "add py now ms t d md = ms\<lparr>short_term := S, long_term := L, metrics := m\<rparr> \<or>
          add py now ms t d md
            = consolidate_memories py now (ms\<lparr>short_term := S, long_term := L, metrics := m\<rparr>)"
      using Inr True mr
      by (cases r) (simp_all add: add_def Let_def E_def S_def L_def)
    then show ?thesis by blast
  next
    case False
    have "ms\<lparr>short_term := S, long_term := L, metrics := metrics ms\<rparr>
            = ms\<lparr>short_term := S, long_term := L\<rparr>"
      by simp
    then have "add py now ms t d md
            = ms\<lparr>short_term := S, long_term := L, metrics := metrics ms\<rparr> \<or>
          add py now ms t d md
            = consolidate_memories py now
                (ms\<lparr>short_term := S, long_term := L, metrics := metrics ms\<rparr>)"
      using Inr False
      by (simp add: add_def Let_def E_def S_def L_def)
    then show ?thesis by blast
  qed
  then show ?thesis
    using Inr unfolding E_def S_def L_def by blast
qed

lemma add_frame:
  "max_size (add py now ms t d md) = max_size ms"
  "importance_threshold (add py now ms t d md) = importance_threshold ms"
  "consolidation_interval (add py now ms t d md) = consolidation_interval ms"
  using add_shape [of py now ms t d md]
  by (auto simp: consolidate_memories_frame)

lemma length_short_term_add:
  assumes "length (short_term ms) \<le> short_capacity"
  shows "length (short_term (add py now ms t d md)) \<le> short_capacity"
  using add_shape [of py now ms t d md] assms
  by (auto simp: length_deque_append intro!: length_consolidate_memories)

lemma length_long_term_add:
  assumes "length (long_term ms) \<le> max_size ms"
  shows "length (long_term (add py now ms t d md)) \<le> max_size ms"
  using add_shape [of py now ms t d md] assms
  by (auto simp: length_deque_append consolidate_memories_frame)

lemma add_all_invariant:
  assumes "length (short_term ms) \<le> short_capacity" "length (long_term ms) \<le> max_size ms"
  shows "length (short_term (add_all py ms cs)) \<le> short_capacity \<and>
         length (long_term (add_all py ms cs)) \<le> max_size ms \<and>
         max_size (add_all py ms cs) = max_size ms"
  using assms unfolding add_all_def
proof (induction cs arbitrary: ms)
  case Nil
  then show ?case by simp
next
  case (Cons c cs)
  let ?ms' = "add_call py ms c"
  have "length (short_term ?ms') \<le> short_capacity"
    unfolding add_call_def by (rule length_short_term_add [OF Cons.prems(1)])
  moreover have "max_size ?ms' = max_size ms"
    unfolding add_call_def by (rule add_frame)
  moreover have "length (long_term ?ms') \<le> max_size ms"
    unfolding add_call_def by (rule length_long_term_add [OF Cons.prems(2)])
  ultimately show ?case
    using Cons.IH [of ?ms'] by simp
qed

text \<open>An \<^verbatim>\<open>add\<close> that is not followed by a consolidation.\<close>

lemma add_no_consolidation:
  assumes "calculate_importance py t d = Inr imp"
    and "int (length (deque_append short_capacity (short_term ms)
            \<lparr>timestamp = now, type = t, data = d, importance = imp, metadata = md\<rparr>))
          < consolidation_interval ms"
  shows "short_term (add py now ms t d md)
           = deque_append short_capacity (short_term ms)
               \<lparr>timestamp = now, type = t, data = d, importance = imp, metadata = md\<rparr>"
    and "long_term (add py now ms t d md)
           = (if imp \<ge> importance_threshold ms
              then deque_append (max_size ms) (long_term ms)
                     \<lparr>timestamp = now, type = t, data = d, importance = imp, metadata = md\<rparr>
              else long_term ms)"
proof -
  obtain m r where mr: "update_metrics py (metrics ms) d = (m, r)"
    by (cases "update_metrics py (metrics ms) d")
  show "short_term (add py now ms t d md)
           = deque_append short_capacity (short_term ms)
               \<lparr>timestamp = now, type = t, data = d, importance = imp, metadata = md\<rparr>"
    using assms mr by (cases r; cases "t = ''trade''") (simp_all add: add_def Let_def)
  show "long_term (add py now ms t d md)
           = (if imp \<ge> importance_threshold ms
              then deque_append (max_size ms) (long_term ms)
                     \<lparr>timestamp = now, type = t, data = d, importance = imp, metadata = md\<rparr>
              else long_term ms)"
    using assms mr by (cases r; cases "t = ''trade''") (simp_all add: add_def Let_def)
qed

text \<open>An \<^verbatim>\<open>add\<close> of an entry that is not a trade, as one equation on the store.\<close>

lemma add_other_type:
  assumes "calculate_importance py t d = Inr imp" and "t \<noteq> ''trade''"
    and "imp < importance_threshold ms"
  shows "add py now ms t d md =
     (if int (length (deque_append short_capacity (short_term ms)
            \<lparr>timestamp = now, type = t, data = d, importance = imp, metadata = md\<rparr>))
          \<ge> consolidation_interval ms
      then consolidate_memories py now
             (ms\<lparr>short_term := deque_append short_capacity (short_term ms)
                   \<lparr>timestamp = now, type = t, data = d, importance = imp, metadata = md\<rparr>\<rparr>)
      else ms\<lparr>short_term := deque_append short_capacity (short_term ms)
                   \<lparr>timestamp = now, type = t, data = d, importance = imp, metadata = md\<rparr>\<rparr>)"
  using assms by (simp add: add_def Let_def)

lemma map_deque_append:
  "map f (deque_append n xs x) = deque_append n (map f xs) (f x)"
  by (simp add: deque_append_def Let_def map_tl)

text \<open>
  With a consolidation interval above the capacity the short-term buffer is never
  consolidated: entries below the threshold stay out of the long-term buffer and the
  short-term buffer holds the most recent ones, oldest first.
\<close>

lemma add_all_low_importance:
  assumes ci: "int short_capacity < consolidation_interval ms"
    and low: "\<forall>c \<in> set cs. \<exists>imp. calculate_importance py (call_type c) (call_data c) = Inr imp
                \<and> imp < importance_threshold ms"
    and empty: "short_term ms = []"
  shows "long_term (add_all py ms cs) = long_term ms \<and>
         consolidation_interval (add_all py ms cs) = consolidation_interval ms \<and>
         importance_threshold (add_all py ms cs) = importance_threshold ms \<and>
         map (\<lambda>e. (timestamp e, type e, data e, metadata e)) (short_term (add_all py ms cs))
           = drop (length cs - short_capacity)
               (map (\<lambda>c. (call_now c, call_type c, call_data c, call_metadata c)) cs)"
  using low
proof (induction cs rule: rev_induct)
  case Nil
  then show ?case by (simp add: add_all_def empty)
next
  case (snoc c cs)
  let ?s = "add_all py ms cs"
  let ?P = "map (\<lambda>c. (call_now c, call_type c, call_data c, call_metadata c)) cs"
  let ?proj = "\<lambda>e. (timestamp e, type e, data e, metadata e)"
  have IH: "long_term ?s = long_term ms" "consolidation_interval ?s = consolidation_interval ms"
    "importance_threshold ?s = importance_threshold ms"
    "map ?proj (short_term ?s) = drop (length cs - short_capacity) ?P"
    using snoc by simp_all
  obtain imp where imp: "calculate_importance py (call_type c) (call_data c) = Inr imp"
      "imp < importance_threshold ms"
    using snoc.prems by auto
  define E where "E = \<lparr>timestamp = call_now c, type = call_type c, data = call_data c,
                         importance = imp, metadata = call_metadata c\<rparr>"
  have "length (map ?proj (short_term ?s)) \<le> short_capacity"
    unfolding IH(4) by simp
  then have len: "length (short_term ?s) \<le> short_capacity"
    by simp
  have "length (deque_append short_capacity (short_term ?s) E) \<le> short_capacity"
    by (rule length_deque_append [OF len])
  then have quiet: "int (length (deque_append short_capacity (short_term ?s) E))
                      < consolidation_interval ?s"
    using ci IH(2) by simp
  have step: "add_all py ms (cs @ [c]) = add py (call_now c) ?s (call_type c) (call_data c)
                                           (call_metadata c)"
    by (simp add: add_all_def add_call_def)
  have short: "short_term (add_all py ms (cs @ [c])) = deque_append short_capacity (short_term ?s) E"
    unfolding step E_def
    by (rule add_no_consolidation(1) [OF imp(1) quiet [unfolded E_def]])
  have long: "long_term (add_all py ms (cs @ [c])) = long_term ms"
    unfolding step
    using add_no_consolidation(2) [OF imp(1) quiet [unfolded E_def]] imp(2) IH(1,3)
    by simp
  have "map ?proj (short_term (add_all py ms (cs @ [c])))
          = deque_append short_capacity (drop (length cs - short_capacity) ?P) (?proj E)"
    unfolding short map_deque_append IH(4) ..
  also have "\<dots> = drop (length (cs @ [c]) - short_capacity)
                     (?P @ [(call_now c, call_type c, call_data c, call_metadata c)])"
  proof (cases "length cs < short_capacity")
    case True
    then show ?thesis
      by (simp add: deque_append_room E_def)
  next
    case False
    then have "length (drop (length cs - short_capacity) ?P) = short_capacity"
      by simp
    moreover have "0 < short_capacity"
      by (simp add: short_capacity_def)
    ultimately have "deque_append short_capacity (drop (length cs - short_capacity) ?P) (?proj E)
        = tl (drop (length cs - short_capacity) ?P) @ [?proj E]"
      by (rule deque_append_full)
    also have "\<dots> = drop (Suc (length cs - short_capacity)) ?P @ [?proj E]"
      by (simp add: drop_Suc tl_drop)
    also have "\<dots> = drop (length (cs @ [c]) - short_capacity)
                       (?P @ [(call_now c, call_type c, call_data c, call_metadata c)])"
    proof -
      have idx: "Suc (length cs - short_capacity) = Suc (length cs) - short_capacity"
        using False by (simp add: Suc_diff_le)
      have "Suc (length cs) - short_capacity - length cs = 0"
        using \<open>0 < short_capacity\<close> by simp
      then show ?thesis
        by (simp add: idx E_def)
    qed
    finally show ?thesis .
  qed
  finally have content: "map ?proj (short_term (add_all py ms (cs @ [c])))
      = drop (length (cs @ [c]) - short_capacity)
          (map (\<lambda>c. (call_now c, call_type c, call_data c, call_metadata c)) (cs @ [c]))"
    by simp
  have "consolidation_interval (add_all py ms (cs @ [c])) = consolidation_interval ms"
    "importance_threshold (add_all py ms (cs @ [c])) = importance_threshold ms"
    unfolding step using IH(2,3) by (simp_all add: add_frame)
  then show ?case
    using long content by blast
qed

text \<open>One entry of importance 1 on a fresh store.\<close>

lemma add_important_fresh:
  assumes "calculate_importance py t d = Inr 1" and "thr \<le> 1" and "0 < n" and "1 < ci"
  shows "short_term (add py now (init n thr ci) t d md)
           = [\<lparr>timestamp = now, type = t, data = d, importance = 1, metadata = md\<rparr>] \<and>
         long_term (add py now (init n thr ci) t d md)
           = [\<lparr>timestamp = now, type = t, data = d, importance = 1, metadata = md\<rparr>]"
proof -
  have app: "deque_append short_capacity []
               \<lparr>timestamp = now, type = t, data = d, importance = 1, metadata = md\<rparr>
             = [\<lparr>timestamp = now, type = t, data = d, importance = 1, metadata = md\<rparr>]"
    by (simp add: deque_append_def short_capacity_def)
  have quiet: "int (length (deque_append short_capacity (short_term (init n thr ci))
            \<lparr>timestamp = now, type = t, data = d, importance = 1, metadata = md\<rparr>))
          < consolidation_interval (init n thr ci)"
    using assms(4) by (simp add: init_def app)
  show ?thesis
    using add_no_consolidation [OF assms(1) quiet] assms(2,3)
    by (simp add: init_def app deque_append_def short_capacity_def)
qed

text \<open>
  Claim C6, as the code has it.  Along every sequence of \<^verbatim>\<open>add\<close> calls on a fresh
  store the short-term buffer holds at most 100 entries and the long-term buffer at
  most \<^verbatim>\<open>max_size\<close>; an append to a full buffer evicts exactly the oldest entry.  If the
  consolidation interval is above 100, then after any number of entries that all stay
  below the importance threshold the long-term buffer is empty and the short-term
  buffer holds the most recent 100 of them (all of them when there are fewer), in
  order.  On a fresh store with a threshold of at most 1, room for one long-term entry
  and a consolidation interval above 1, an entry of importance 1 is in both buffers.
\<close>

theorem memory_buffers_bounded:
  "length (short_term (add_all py (init n thr ci) cs)) \<le> short_capacity \<and>
   length (long_term (add_all py (init n thr ci) cs)) \<le> n \<and>
   (length xs = k \<and> 0 < k \<longrightarrow> deque_append k xs x = tl xs @ [x]) \<and>
   (length xs < k \<longrightarrow> deque_append k xs x = xs @ [x]) \<and>
   (int short_capacity < ci \<and>
    (\<forall>c \<in> set cs. \<exists>imp. calculate_importance py (call_type c) (call_data c) = Inr imp
                      \<and> imp < thr) \<longrightarrow>
      length (short_term (add_all py (init n thr ci) cs)) = min short_capacity (length cs) \<and>
      long_term (add_all py (init n thr ci) cs) = [] \<and>
      map (\<lambda>e. (timestamp e, type e, data e, metadata e))
          (short_term (add_all py (init n thr ci) cs))
        = drop (length cs - short_capacity)
            (map (\<lambda>c. (call_now c, call_type c, call_data c, call_metadata c)) cs)) \<and>
   (calculate_importance py t d = Inr 1 \<and> thr \<le> 1 \<and> 0 < n \<and> 1 < ci \<longrightarrow>
      short_term (add py now (init n thr ci) t d md)
        = [\<lparr>timestamp = now, type = t, data = d, importance = 1, metadata = md\<rparr>] \<and>
      long_term (add py now (init n thr ci) t d md)
        = [\<lparr>timestamp = now, type = t, data = d, importance = 1, metadata = md\<rparr>])"
proof -
  have inv: "length (short_term (add_all py (init n thr ci) cs)) \<le> short_capacity \<and>
             length (long_term (add_all py (init n thr ci) cs)) \<le> n"
    using add_all_invariant [of "init n thr ci" py cs] by (simp add: init_def)
  have low: "length (short_term (add_all py (init n thr ci) cs)) = min short_capacity (length cs) \<and>
      long_term (add_all py (init n thr ci) cs) = [] \<and>
      map (\<lambda>e. (timestamp e, type e, data e, metadata e))
          (short_term (add_all py (init n thr ci) cs))
        = drop (length cs - short_capacity)
            (map (\<lambda>c. (call_now c, call_type c, call_data c, call_metadata c)) cs)"
    if "int short_capacity < ci"
      and "\<forall>c \<in> set cs. \<exists>imp. calculate_importance py (call_type c) (call_data c) = Inr imp
                      \<and> imp < thr"
  proof -
    have run: "long_term (add_all py (init n thr ci) cs) = [] \<and>
      map (\<lambda>e. (timestamp e, type e, data e, metadata e))
          (short_term (add_all py (init n thr ci) cs))
        = drop (length cs - short_capacity)
            (map (\<lambda>c. (call_now c, call_type c, call_data c, call_metadata c)) cs)"
      using add_all_low_importance [of "init n thr ci" cs py] that by (simp add: init_def)
    then have "length (map (\<lambda>e. (timestamp e, type e, data e, metadata e))
                   (short_term (add_all py (init n thr ci) cs)))
                 = length (drop (length cs - short_capacity)
                     (map (\<lambda>c. (call_now c, call_type c, call_data c, call_metadata c)) cs))"
      by simp
    then have "length (short_term (add_all py (init n thr ci) cs))
                 = min short_capacity (length cs)"
      by (simp add: min_def)
    with run show ?thesis by blast
  qed
  show ?thesis
    using inv low deque_append_full [of xs k x] deque_append_room [of xs k x]
          add_important_fresh [of py t d thr n ci now md]
    by blast
qed

lemma low_call_importance:
  "calculate_importance plain_builtins (call_type low_call) (call_data low_call) = Inr 0.6"
  by (simp add: low_call_def calculate_importance_def Let_def)

lemma add_all_snoc: "add_all py ms (cs @ [c]) = add_call py (add_all py ms cs) c"
  by (simp add: add_all_def)

lemma replicate_snoc: "replicate (Suc n) x = replicate n x @ [x]"
  by (simp add: replicate_append_same)

theorem memory_buffers_bounded_witness:
  "length (short_term (add_all plain_builtins (init 1000 0.9 101) (replicate 150 low_call)))
     = 100 \<and>
   long_term (add_all plain_builtins (init 1000 0.9 101) (replicate 150 low_call)) = [] \<and>
   deque_append 2 [1::nat, 2] 3 = [2, 3] \<and>
   deque_append 3 [1::nat, 2] 3 = [1, 2, 3] \<and>
   long_term (add plain_builtins ''t'' (init 1000 0.5 100) ''trade''
       [(''size'', Num 5000), (''profit'', Num 500)] None)
     = [\<lparr>timestamp = ''t'', type = ''trade'',
         data = [(''size'', Num 5000), (''profit'', Num 500)],
         importance = 1, metadata = None\<rparr>]"
proof -
  have ci: "int short_capacity < 101"
    by (simp add: short_capacity_def)
  have "\<exists>imp. calculate_importance plain_builtins (call_type low_call) (call_data low_call)
                 = Inr imp \<and> imp < 0.9"
    by (rule exI [of _ "0.6"]) (simp add: low_call_importance)
  then have low: "\<forall>c \<in> set (replicate 150 low_call).
      \<exists>imp. calculate_importance plain_builtins (call_type c) (call_data c) = Inr imp
            \<and> imp < 0.9"
    by simp
  have one: "calculate_importance plain_builtins ''trade''
               [(''size'', Num 5000), (''profit'', Num 500)] = Inr 1"
    by (simp add: calculate_importance_def Let_def)
  have full: "length [1::nat, 2] = 2 \<and> (0::nat) < 2"
    by simp
  have room: "length [1::nat, 2] < 3"
    by simp
  have "length (short_term (add_all plain_builtins (init 1000 0.9 101) (replicate 150 low_call)))
          = min short_capacity (length (replicate 150 low_call)) \<and>
        long_term (add_all plain_builtins (init 1000 0.9 101) (replicate 150 low_call)) = []"
    using memory_buffers_bounded
            [of plain_builtins 1000 "0.9" 101 "replicate 150 low_call" "[1::nat, 2]" 2 3]
          ci low
    by blast
  moreover have "deque_append 2 [1::nat, 2] 3 = tl [1, 2] @ [3]"
    using memory_buffers_bounded
            [of plain_builtins 1000 "0.5" 101 "[]" "[1::nat, 2]" 2 3]
          full
    by blast
  moreover have "deque_append 3 [1::nat, 2] 3 = [1, 2] @ [3]"
    using memory_buffers_bounded
            [of plain_builtins 1000 "0.5" 101 "[]" "[1::nat, 2]" 3 3]
          room
    by blast
  moreover have "long_term (add plain_builtins ''t'' (init 1000 0.5 100) ''trade''
       [(''size'', Num 5000), (''profit'', Num 500)] None)
     = [\<lparr>timestamp = ''t'', type = ''trade'',
         data = [(''size'', Num 5000), (''profit'', Num 500)],
         importance = 1, metadata = None\<rparr>]"
    using memory_buffers_bounded
            [of plain_builtins 1000 "0.5" 100 "[]" "[]::nat list" 0 0 "''trade''"
                "[(''size'', Num 5000), (''profit'', Num 500)]" "''t''" None]
          one
    by simp
  ultimately show ?thesis
    by (simp add: short_capacity_def)
qed

text \<open>Grouping and merging a buffer of equal entries.\<close>

lemma group_loop_replicate:
  "group_loop py (replicate n e) [(group_key py e, g)] = [(group_key py e, g @ replicate n e)]"
proof (induction n arbitrary: g)
  case 0
  then show ?case by simp
next
  case (Suc n)
  show ?case
    by (simp add: Let_def has_key_def Suc.IH replicate_app_Cons_same)
qed

lemma group_loop_replicate_fresh:
  "group_loop py (replicate (Suc n) e) [] = [(group_key py e, replicate (Suc n) e)]"
  using group_loop_replicate [of py n e "[e]"]
  by (simp add: Let_def has_key_def)

lemma merge_loop_replicate:
  assumes "data e = [(k, Num r)]"
  shows "merge_loop (replicate n e) [(k, NumList xs)] = Inr [(k, NumList (xs @ replicate n r))]"
proof (induction n arbitrary: xs)
  case 0
  then show ?case by simp
next
  case (Suc n)
  show ?case
    by (simp add: assms Let_def has_key_def Suc.IH replicate_app_Cons_same)
qed

lemma merge_memory_data_replicate:
  assumes "data e = [(k, Num r)]"
  shows "merge_memory_data (replicate (Suc n) e) = Inr [(k, Num r)]"
proof -
  have "merge_loop (replicate (Suc n) e) [] = Inr [(k, NumList (r # replicate n r))]"
    using merge_loop_replicate [OF assms, of n "[r]"]
    by (simp add: assms Let_def has_key_def)
  moreover have "sum_list (r # replicate n r) / real (length (r # replicate n r)) = r"
  proof -
    have "sum_list (r # replicate n r) = real (Suc n) * r"
      by (simp add: sum_list_replicate algebra_simps)
    then show ?thesis by simp
  qed
  ultimately show ?thesis
    by (simp add: merge_memory_data_def)
qed

lemma max_importance_replicate:
  "max_importance (replicate (Suc n) e) = importance e"
proof -
  have "foldl max a (replicate n a) = a" for a :: real
    by (induction n) simp_all
  then show ?thesis
    by (simp add: max_importance_def)
qed

lemma consolidate_memories_replicate:
  assumes "data e = [(k, Num r)]" and "2 \<le> n"
  shows "consolidate_memories py now (ms\<lparr>short_term := replicate n e\<rparr>)
           = ms\<lparr>short_term := [\<lparr>timestamp = now, type = type e, data = [(k, Num r)],
                                 importance = importance e, metadata = None\<rparr>]\<rparr>"
proof -
  obtain n' where n: "n = Suc (Suc n')"
    using assms(2) by (metis One_nat_def Suc_1 Suc_le_D Suc_le_mono)
  have groups: "map snd (group_loop py (replicate n e) []) = [replicate n e]"
    unfolding n by (simp only: group_loop_replicate_fresh) simp
  have "consolidate_loop now [replicate n e] []
          = Inr [\<lparr>timestamp = now, type = type e, data = [(k, Num r)],
                  importance = importance e, metadata = None\<rparr>]"
    unfolding n
    by (simp add: merge_memory_data_replicate [OF assms(1)] max_importance_replicate
             del: replicate.simps)
  then show ?thesis
    by (simp add: consolidate_memories_def groups deque_extend_def deque_append_def
                  short_capacity_def)
qed

text \<open>The store with the raised threshold under a run of the low-importance call.\<close>

lemma add_call_low:
  assumes "importance_threshold ms = 0.9"
  shows "add_call plain_builtins ms low_call =
     (if int (length (deque_append short_capacity (short_term ms) low_entry))
          \<ge> consolidation_interval ms
      then consolidate_memories plain_builtins ''t''
             (ms\<lparr>short_term := deque_append short_capacity (short_term ms) low_entry\<rparr>)
      else ms\<lparr>short_term := deque_append short_capacity (short_term ms) low_entry\<rparr>)"
proof -
  have "call_type low_call \<noteq> ''trade''"
    by (simp add: low_call_def)
  moreover have "(0.6::real) < importance_threshold ms"
    using assms by simp
  ultimately show ?thesis
    unfolding add_call_def
    using add_other_type [OF low_call_importance, of ms "call_now low_call" "call_metadata low_call"]
    by (simp add: low_call_def low_entry_def)
qed

lemma add_all_low_below_interval:
  "n < 100 \<Longrightarrow>
   add_all plain_builtins strict_init (replicate n low_call)
     = strict_init\<lparr>short_term := replicate n low_entry\<rparr>"
proof (induction n)
  case 0
  then show ?case by (simp add: add_all_def strict_init_def init_def)
next
  case (Suc n)
  have "add_all plain_builtins strict_init (replicate (Suc n) low_call)
      = add_call plain_builtins (add_all plain_builtins strict_init (replicate n low_call)) low_call"
    by (simp only: replicate_snoc add_all_snoc)
  also have "\<dots> = add_call plain_builtins (strict_init\<lparr>short_term := replicate n low_entry\<rparr>) low_call"
    using Suc by simp
  also have "\<dots> = strict_init\<lparr>short_term := replicate (Suc n) low_entry\<rparr>"
    using Suc.prems
    by (subst add_call_low)
       (simp_all add: strict_init_def init_def deque_append_def short_capacity_def
                      replicate_append_same)
  finally show ?case .
qed

lemma add_all_low_at_interval:
  "add_all plain_builtins strict_init (replicate 100 low_call)
     = strict_init\<lparr>short_term := [low_entry]\<rparr>"
proof -
  have "replicate 100 low_call = replicate 99 low_call @ [low_call]"
    using replicate_snoc [of 99 low_call] by simp
  then have "add_all plain_builtins strict_init (replicate 100 low_call)
      = add_call plain_builtins (add_all plain_builtins strict_init (replicate 99 low_call)) low_call"
    by (simp only: add_all_snoc)
  also have "\<dots> = add_call plain_builtins (strict_init\<lparr>short_term := replicate 99 low_entry\<rparr>) low_call"
    by (simp add: add_all_low_below_interval)
  also have "\<dots> = consolidate_memories plain_builtins ''t''
                     (strict_init\<lparr>short_term := replicate 100 low_entry\<rparr>)"
  proof -
    have "replicate 99 low_entry @ [low_entry] = replicate 100 low_entry"
      using replicate_snoc [of 99 low_entry] by simp
    then show ?thesis
      by (subst add_call_low)
         (simp_all add: strict_init_def init_def deque_append_def short_capacity_def)
  qed
  also have "\<dots> = strict_init\<lparr>short_term := [low_entry]\<rparr>"
    using consolidate_memories_replicate
            [of low_entry "''confidence''" "0.5" 100 plain_builtins "''t''" strict_init]
    by (simp add: low_entry_def)
  finally show ?thesis .
qed

text \<open>
  The claim as stated fails at the default consolidation interval of 100.  The
  low-importance call is below the threshold of the store; after 101 of them the
  short-term buffer holds 2 entries, not 100: the hundredth call fills the buffer, the
  consolidation that follows merges the hundred entries into one, and the last call
  adds a second.
\<close>

theorem memory_buffers_counterexample:
  "calculate_importance plain_builtins (call_type low_call) (call_data low_call) = Inr 0.6 \<and>
   0.6 < importance_threshold strict_init \<and>
   length (short_term (add_all plain_builtins strict_init (replicate 101 low_call))) = 2 \<and>
   length (short_term (add_all plain_builtins strict_init (replicate 101 low_call)))
     \<noteq> short_capacity"
proof -
  have "replicate 101 low_call = replicate 100 low_call @ [low_call]"
    using replicate_snoc [of 100 low_call] by simp
  then have "add_all plain_builtins strict_init (replicate 101 low_call)
      = add_call plain_builtins (add_all plain_builtins strict_init (replicate 100 low_call)) low_call"
    by (simp only: add_all_snoc)
  also have "\<dots> = add_call plain_builtins (strict_init\<lparr>short_term := [low_entry]\<rparr>) low_call"
    by (simp add: add_all_low_at_interval)
  also have "\<dots> = strict_init\<lparr>short_term := [low_entry, low_entry]\<rparr>"
    by (subst add_call_low)
       (simp_all add: strict_init_def init_def deque_append_def short_capacity_def)
  finally have "length (short_term (add_all plain_builtins strict_init (replicate 101 low_call))) = 2"
    by simp
  then show ?thesis
    using low_call_importance
    by (simp add: strict_init_def init_def short_capacity_def)
qed

end
